theory Spec2Isabelle
  imports Complex_Main "HOL-Library.Sublist"
begin

section \<open>Data model\<close>

text \<open>
  The SQL reducer of the Spark UI (\<^verbatim>\<open>SqlReducer.ts\<close>, the second half of the
  source file) works on plain JSON-like objects. Objects become records, optional
  fields become \<open>option\<close>, arrays become lists. Node ids are JavaScript numbers that
  hold integers; they are modelled as \<open>int\<close>. The graph library keys its nodes by
  \<^verbatim>\<open>nodeId.toString()\<close> and the contractor reads them back with \<^verbatim>\<open>parseInt\<close>; on
  integers the two are inverse to each other, so graph keys are \<open>int\<close> as well.
  Other JavaScript numbers (row counts, durations, ratios) are modelled as exact
  \<open>real\<close> numbers, without the rounding of floating point; \<^verbatim>\<open>NaN\<close>, \<^verbatim>\<open>null\<close> and
  \<^verbatim>\<open>undefined\<close> results are \<open>None\<close>. Infinities are modelled where a division can
  produce them, in the quotient of the join ratio.
\<close>

record EnrichedSqlMetric =
  mname :: string
  mvalue :: string

record EnrichedSqlEdge =
  fromId :: int
  toId :: int

text \<open>
  The numbers that arise from \<^verbatim>\<open>parseInt\<close> and \<^verbatim>\<open>Math.min\<close> on execution ids:
  \<^verbatim>\<open>NaN\<close>, an integer, or \<^verbatim>\<open>Infinity\<close> (the minimum of no number at all). \<open>idEq\<close> is
  \<^verbatim>\<open>===\<close> and \<open>idLess\<close> is \<^verbatim>\<open><\<close>: both are false as soon as one side is \<^verbatim>\<open>NaN\<close>.
  Ids are taken to be small enough for \<^verbatim>\<open>parseInt\<close> to return them exactly.
\<close>

datatype idnum = NaN | Num int | Infinity

fun idEq :: "idnum \<Rightarrow> idnum \<Rightarrow> bool" where
  "idEq (Num a) (Num b) = (a = b)"
| "idEq Infinity Infinity = True"
| "idEq _ _ = False"

fun idLess :: "idnum \<Rightarrow> idnum \<Rightarrow> bool" where
  "idLess (Num a) (Num b) = (a < b)"
| "idLess (Num a) Infinity = True"
| "idLess _ _ = False"

fun idMin2 :: "idnum \<Rightarrow> idnum \<Rightarrow> idnum" where
  "idMin2 NaN _ = NaN"
| "idMin2 _ NaN = NaN"
| "idMin2 Infinity b = b"
| "idMin2 a Infinity = a"
| "idMin2 (Num a) (Num b) = Num (min a b)"

text \<open>\<^verbatim>\<open>Math.min(...xs)\<close>.\<close>

definition mathMin :: "idnum list \<Rightarrow> idnum" where
  "mathMin xs = foldr idMin2 xs Infinity"

text \<open>The raw node of a snapshot (\<^verbatim>\<open>SqlNode\<close>), as far as the reducer reads it.\<close>

record SqlNode =
  nodeId :: int
  nodeName :: string
  metrics :: "EnrichedSqlMetric list"
  wholeStageCodegenId :: "idnum option"

text \<open>\<^verbatim>\<open>ParsedNodePlan\<close>: a tag and the result of the parser of that operator kind.
  The parsers are not part of the source at hand; \<open>'p\<close> stands for the union of
  their result types.\<close>

record 'p ParsedNodePlan =
  ptype :: string
  pplan :: 'p

record ExchangeMetrics =
  writeDuration :: real
  readDuration :: real
  duration :: real

text \<open>An Iceberg commit, as far as the reducer reads it.\<close>

record IcebergCommitsInfo =
  commitExecutionId :: int

record IcebergInfo =
  commitsInfo :: "IcebergCommitsInfo list"

text \<open>\<^verbatim>\<open>EnrichedSqlNode\<close>: the raw node with the fields that \<^verbatim>\<open>calculateSql\<close> adds.
  The node category (the field \<^verbatim>\<open>type\<close>) is a string.\<close>

record 'p EnrichedSqlNode = SqlNode +
  rddScopeId :: "string option"
  ntype :: string
  parsedPlan :: "'p ParsedNodePlan option"
  enrichedName :: string
  isCodegenNode :: bool
  icebergCommit :: "IcebergCommitsInfo option"
  codegenDuration :: "real option"
  exchangeMetrics :: "ExchangeMetrics option"
  exchangeBroadcastDuration :: "real option"

record SQLNodePlan =
  planNodeId :: int
  planDescription :: string
  planRddScopeId :: "string option"

record SQLPlan =
  executionId :: int
  nodesPlan :: "SQLNodePlan list"

text \<open>Modelled from the spec: the enumeration \<^verbatim>\<open>SqlStatus\<close> is declared outside the
  source at hand; section 3 gives the status as one of Running, Completed, Failed.\<close>

datatype SqlStatus = Running | Completed | Failed

text \<open>An execution of a snapshot (\<^verbatim>\<open>SparkSQL\<close>), over its kind of node.\<close>

record 'n SparkSQL =
  sqlId :: string
  status :: SqlStatus
  sqlDuration :: real
  runningJobIds :: "int list"
  successJobIds :: "int list"
  failedJobIds :: "int list"
  nodes :: "'n list"
  edges :: "EnrichedSqlEdge list"
  submissionTime :: string

record FilterTier =
  nodesIds :: "int list"
  tierEdges :: "EnrichedSqlEdge list"

record SqlFilters =
  io :: FilterTier
  basic :: FilterTier
  advanced :: FilterTier

record 'p EnrichedSparkSQL = "'p EnrichedSqlNode SparkSQL" +
  codegenNodes :: "'p EnrichedSqlNode list"
  filters :: SqlFilters
  uniqueId :: nat
  metricUpdateId :: nat
  isSqlCommand :: bool
  originalNumOfNodes :: nat
  submissionTimeEpoc :: real

record 'p SparkSQLStore =
  sqls :: "'p EnrichedSparkSQL list"

datatype jsError = TypeError | Thrown

section \<open>JavaScript built-ins on strings and lists\<close>

text \<open>\<^verbatim>\<open>s.includes(sub)\<close>.\<close>

fun includesStr :: "string \<Rightarrow> string \<Rightarrow> bool" where
  "includesStr [] sub = (sub = [])"
| "includesStr (c # cs) sub = (prefix sub (c # cs) \<or> includesStr cs sub)"

text \<open>\<^verbatim>\<open>s.replace(pat, rep)\<close> with a string pattern: the first occurrence only.\<close>

fun replaceFirst :: "string \<Rightarrow> string \<Rightarrow> string \<Rightarrow> string" where
  "replaceFirst [] pat rep = (if pat = [] then rep else [])"
| "replaceFirst (c # cs) pat rep =
     (if prefix pat (c # cs) then rep @ drop (length pat) (c # cs)
      else c # replaceFirst cs pat rep)"

text \<open>\<^verbatim>\<open>s.replace(/,/g, "")\<close>.\<close>

definition removeCommas :: "string \<Rightarrow> string" where
  "removeCommas s = filter (\<lambda>c. c \<noteq> CHR '','') s"

text \<open>\<^verbatim>\<open>x ?? d\<close>.\<close>

definition nullish :: "'a option \<Rightarrow> 'a \<Rightarrow> 'a" where
  "nullish x d = (case x of None \<Rightarrow> d | Some v \<Rightarrow> v)"

text \<open>The assignment \<^verbatim>\<open>ys[ys.length - 1].f = v\<close> for \<^verbatim>\<open>ys = xs.filter(P)\<close>: the objects
  of \<open>ys\<close> are those of \<open>xs\<close>, so the assignment changes the last element of \<open>xs\<close>
  that satisfies \<open>P\<close>.\<close>

fun updateFirstWhere :: "('a \<Rightarrow> bool) \<Rightarrow> ('a \<Rightarrow> 'a) \<Rightarrow> 'a list \<Rightarrow> 'a list" where
  "updateFirstWhere P f [] = []"
| "updateFirstWhere P f (x # xs) = (if P x then f x # xs else x # updateFirstWhere P f xs)"

definition updateLastWhere :: "('a \<Rightarrow> bool) \<Rightarrow> ('a \<Rightarrow> 'a) \<Rightarrow> 'a list \<Rightarrow> 'a list" where
  "updateLastWhere P f xs = rev (updateFirstWhere P f (rev xs))"

text \<open>\<^verbatim>\<open>uuidv4()\<close>, as an injected source of fresh tokens (section 9 of the
  specification): the state counts the tokens handed out, and the next token is that
  count.\<close>

definition uuidv4 :: "nat \<Rightarrow> nat \<times> nat" where
  "uuidv4 gen = (gen, Suc gen)"

section \<open>The graph library\<close>

text \<open>
  \<^verbatim>\<open>graphlib\<close>'s directed, non-multi \<^verbatim>\<open>Graph\<close>. The library stores nodes and edges
  in objects keyed by strings, which JavaScript enumerates in insertion order;
  \<^verbatim>\<open>_edgeObjs\<close>, \<^verbatim>\<open>_in[w]\<close> and \<^verbatim>\<open>_out[v]\<close> receive and lose an edge in the same
  call, so one list of edges in insertion order describes all three. An edge is the
  pair \<open>(v, w)\<close> of its source and its target.
\<close>

record Graph =
  gnodes :: "int list"
  gedges :: "(int \<times> int) list"

definition emptyGraph :: Graph where
  "emptyGraph = \<lparr>gnodes = [], gedges = []\<rparr>"

definition hasNode :: "Graph \<Rightarrow> int \<Rightarrow> bool" where
  "hasNode g v = (v \<in> set (gnodes g))"

definition setNode :: "Graph \<Rightarrow> int \<Rightarrow> Graph" where
  "setNode g v = (if hasNode g v then g else g\<lparr>gnodes := gnodes g @ [v]\<rparr>)"

text \<open>\<^verbatim>\<open>setEdge(v, w)\<close>: an existing edge is kept where it is; a new one creates its
  endpoints when they are missing and is stored last.\<close>

definition setEdge :: "Graph \<Rightarrow> int \<Rightarrow> int \<Rightarrow> Graph" where
  "setEdge g v w =
     (if (v, w) \<in> set (gedges g) then g
      else (let g' = setNode (setNode g v) w in g'\<lparr>gedges := gedges g' @ [(v, w)]\<rparr>))"

text \<open>\<^verbatim>\<open>removeNode(v)\<close> deletes the node with every edge that enters or leaves it.\<close>

definition removeNode :: "Graph \<Rightarrow> int \<Rightarrow> Graph" where
  "removeNode g v =
     (if hasNode g v
      then \<lparr>gnodes = removeAll v (gnodes g),
            gedges = filter (\<lambda>e. fst e \<noteq> v \<and> snd e \<noteq> v) (gedges g)\<rparr>
      else g)"

text \<open>\<^verbatim>\<open>inEdges(v)\<close> and \<^verbatim>\<open>outEdges(v)\<close> return \<^verbatim>\<open>undefined\<close> for a node that is not
  in the graph.\<close>

definition inEdges :: "Graph \<Rightarrow> int \<Rightarrow> (int \<times> int) list option" where
  "inEdges g v = (if hasNode g v then Some (filter (\<lambda>e. snd e = v) (gedges g)) else None)"

definition outEdges :: "Graph \<Rightarrow> int \<Rightarrow> (int \<times> int) list option" where
  "outEdges g v = (if hasNode g v then Some (filter (\<lambda>e. fst e = v) (gedges g)) else None)"

text \<open>
  Modelled from the spec: \<^verbatim>\<open>generateGraph\<close> (\<^verbatim>\<open>PlanGraphUtils.ts\<close>) is not part of the
  source at hand. Section 4.3 describes it as building a fresh directed graph from
  the node list and the edge list: every node is entered under its id, then every
  edge is set from its \<^verbatim>\<open>fromId\<close> to its \<^verbatim>\<open>toId\<close>.
\<close>

definition generateGraph ::
  "EnrichedSqlEdge list \<Rightarrow> ('a SqlNode_scheme) list \<Rightarrow> Graph" where
  "generateGraph es ns =
     foldl (\<lambda>g e. setEdge g (fromId e) (toId e))
       (foldl (\<lambda>g n. setNode g (nodeId n)) emptyGraph ns) es"

section \<open>The DAG contractor\<close>

text \<open>The body of the \<^verbatim>\<open>forEach\<close> over the nodes that are not visible. Both edge
  arrays are read before the graph is changed.\<close>

definition contractNode :: "Graph \<Rightarrow> int \<Rightarrow> Graph" where
  "contractNode g n =
     (case inEdges g n of
        None \<Rightarrow> g
      | Some ins \<Rightarrow>
          (case outEdges g n of
             None \<Rightarrow> g
           | Some [] \<Rightarrow> g
           | Some (target # _) \<Rightarrow>
               removeNode (foldl (\<lambda>g' inEdge. setEdge g' (fst inEdge) (snd target)) g ins) n))"

definition notVisibleNodes ::
  "('a SqlNode_scheme) list \<Rightarrow> ('b SqlNode_scheme) list \<Rightarrow> ('a SqlNode_scheme) list" where
  "notVisibleNodes allNodes visibleNodes =
     filter (\<lambda>node. nodeId node \<notin> set (map nodeId visibleNodes)) allNodes"

text \<open>The graph after the removal loop of \<^verbatim>\<open>cleanUpDAG\<close>.\<close>

definition contractedGraph ::
  "EnrichedSqlEdge list \<Rightarrow> ('a SqlNode_scheme) list \<Rightarrow> ('b SqlNode_scheme) list \<Rightarrow> Graph" where
  "contractedGraph es allNodes visibleNodes =
     foldl (\<lambda>g node. contractNode g (nodeId node))
       (generateGraph es allNodes) (notVisibleNodes allNodes visibleNodes)"

definition cleanUpDAG ::
  "EnrichedSqlEdge list \<Rightarrow> ('a SqlNode_scheme) list \<Rightarrow> ('b SqlNode_scheme) list
     \<Rightarrow> EnrichedSqlEdge list" where
  "cleanUpDAG es allNodes visibleNodes =
     (let g = contractedGraph es allNodes visibleNodes;
          visibleNodesIds = map nodeId visibleNodes;
          filteredEdges = map (\<lambda>edge. \<lparr>fromId = fst edge, toId = snd edge\<rparr>) (gedges g)
      in filter (\<lambda>edge. toId edge \<in> set visibleNodesIds \<and> fromId edge \<in> set visibleNodesIds)
           filteredEdges)"

section \<open>Functions that the source at hand imports\<close>

text \<open>
  \<^verbatim>\<open>SqlReducer.ts\<close> imports its operator parsers, the helpers of
  \<^verbatim>\<open>SqlReducerUtils.ts\<close>, \<^verbatim>\<open>PlanGraphUtils.ts\<close> and \<^verbatim>\<open>FormatUtils.ts\<close>, none of which is
  in the source at hand. They are parameters of the model, collected in one record
  together with the JavaScript built-ins on numbers and their text
  (\<^verbatim>\<open>parseInt\<close>, \<^verbatim>\<open>parseFloat\<close>, \<^verbatim>\<open>toFixed\<close>, \<^verbatim>\<open>toString\<close>), so that every theorem
  holds whatever these functions compute. A parser may throw; the helpers return
  values of their declared types.
\<close>

record 'p Deps =
  parseHashAggregate :: "string \<Rightarrow> jsError + 'p"
  parseTakeOrderedAndProject :: "string \<Rightarrow> jsError + 'p"
  parseCollectLimit :: "string \<Rightarrow> jsError + 'p"
  parseCoalesce :: "string \<Rightarrow> jsError + 'p"
  parseWriteToHDFS :: "string \<Rightarrow> jsError + 'p"
  parseFilter :: "string \<Rightarrow> jsError + 'p"
  parseExchange :: "string \<Rightarrow> jsError + 'p"
  parseProject :: "string \<Rightarrow> jsError + 'p"
  parseSort :: "string \<Rightarrow> jsError + 'p"
  parseWindow :: "string \<Rightarrow> jsError + 'p"
  parseFileScan :: "string \<Rightarrow> string \<Rightarrow> jsError + 'p"
  parseJoin :: "string \<Rightarrow> jsError + 'p"
  calcNodeType :: "string \<Rightarrow> string"
  calcNodeMetrics :: "string \<Rightarrow> EnrichedSqlMetric list \<Rightarrow> EnrichedSqlMetric list"
  nodeEnrichedNameBuilder :: "string \<Rightarrow> 'p ParsedNodePlan option \<Rightarrow> string"
  extractTotalFromStatisticsMetric :: "string \<Rightarrow> string"
  timeStringToMilliseconds :: "string \<Rightarrow> real option"
  timeStrToEpocTime :: "string \<Rightarrow> real"
  calculatePercentage :: "real \<Rightarrow> real \<Rightarrow> real"
  findLastNodeWithInputRows ::
    "'p EnrichedSqlNode \<Rightarrow> Graph \<Rightarrow> 'p EnrichedSqlNode list \<Rightarrow> 'p EnrichedSqlNode option"
  getRowsFromMetrics :: "EnrichedSqlMetric list option \<Rightarrow> real option"
  parseInt :: "string \<Rightarrow> idnum"
  parseFloat :: "string \<Rightarrow> real option"
  toFixed :: "real \<Rightarrow> nat \<Rightarrow> string"
  numberToString :: "real \<Rightarrow> string"

section \<open>JavaScript division\<close>

text \<open>
  The quotient of two JavaScript numbers need not be a finite number: a division by
  zero gives an infinity, or \<^verbatim>\<open>NaN\<close> for \<^verbatim>\<open>0 / 0\<close>. The only quotient of the reducer is
  the join ratio; \<open>exceeds q r\<close> is the comparison \<^verbatim>\<open>q > r\<close> and \<open>quotientToFixed\<close>
  is \<^verbatim>\<open>q.toFixed(d)\<close>, which prints an infinity and \<^verbatim>\<open>NaN\<close> by their names.
\<close>

datatype quotient = Finite real | PlusInfinity | MinusInfinity | NotANumber

definition jsDivide :: "real \<Rightarrow> real \<Rightarrow> quotient" where
  "jsDivide a b =
     (if b \<noteq> 0 then Finite (a / b)
      else if a > 0 then PlusInfinity
      else if a < 0 then MinusInfinity
      else NotANumber)"

fun exceeds :: "quotient \<Rightarrow> real \<Rightarrow> bool" where
  "exceeds (Finite q) r = (q > r)"
| "exceeds PlusInfinity r = True"
| "exceeds MinusInfinity r = False"
| "exceeds NotANumber r = False"

definition quotientToFixed :: "'p Deps \<Rightarrow> quotient \<Rightarrow> nat \<Rightarrow> string" where
  "quotientToFixed D q d =
     (case q of
        Finite x \<Rightarrow> toFixed D x d
      | PlusInfinity \<Rightarrow> ''Infinity''
      | MinusInfinity \<Rightarrow> ''-Infinity''
      | NotANumber \<Rightarrow> ''NaN'')"

section \<open>Parsing the plan of a node\<close>

text \<open>The object literal \<^verbatim>\<open>{type: t, plan: parse(...)}\<close> inside the \<^verbatim>\<open>try\<close> block: a
  parser that throws makes \<^verbatim>\<open>parseNodePlan\<close> return \<^verbatim>\<open>undefined\<close>.\<close>

definition tagged :: "string \<Rightarrow> jsError + 'p \<Rightarrow> 'p ParsedNodePlan option" where
  "tagged t r = (case r of Inl _ \<Rightarrow> None | Inr v \<Rightarrow> Some \<lparr>ptype = t, pplan = v\<rparr>)"

text \<open>The \<^verbatim>\<open>switch\<close> compares the name with the labels from top to bottom, so the second
  label \<^verbatim>\<open>"CometFilter"\<close> (in the Project group) comes after the first one.\<close>

definition parseNodePlan ::
  "'p Deps \<Rightarrow> ('a SqlNode_scheme) \<Rightarrow> SQLNodePlan \<Rightarrow> 'p ParsedNodePlan option" where
  "parseNodePlan D node nplan =
     (let nm = nodeName node; d = planDescription nplan in
      if nm = ''PhotonGroupingAgg'' \<or> nm = ''GpuHashAggregate''
           \<or> nm = ''!CometGpuHashAggregate'' \<or> nm = ''HashAggregate''
        then tagged ''HashAggregate'' (parseHashAggregate D d)
      else if nm = ''TakeOrderedAndProject''
        then tagged ''TakeOrderedAndProject'' (parseTakeOrderedAndProject D d)
      else if nm = ''CollectLimit'' then tagged ''CollectLimit'' (parseCollectLimit D d)
      else if nm = ''Coalesce'' then tagged ''Coalesce'' (parseCoalesce D d)
      else if nm = ''Execute InsertIntoHadoopFsRelationCommand''
        then tagged ''WriteToHDFS'' (parseWriteToHDFS D d)
      else if nm = ''PhotonFilter'' \<or> nm = ''GpuFilter'' \<or> nm = ''CometFilter''
           \<or> nm = ''Filter''
        then tagged ''Filter'' (parseFilter D d)
      else if nm = ''Exchange'' \<or> nm = ''CometExchange'' \<or> nm = ''CometColumnarExchange''
           \<or> nm = ''GpuColumnarExchange''
        then tagged ''Exchange'' (parseExchange D d)
      else if nm = ''PhotonProject'' \<or> nm = ''GpuProject'' \<or> nm = ''CometFilter''
           \<or> nm = ''Project''
        then tagged ''Project'' (parseProject D d)
      else if nm = ''GpuSort'' \<or> nm = ''CometSort'' \<or> nm = ''Sort''
        then tagged ''Sort'' (parseSort D d)
      else if nm = ''Window'' then tagged ''Window'' (parseWindow D d)
      else if includesStr nm ''Scan'' then tagged ''FileScan'' (parseFileScan D d nm)
      else if includesStr nm ''Join'' then tagged ''Join'' (parseJoin D d)
      else None)"

section \<open>Durations\<close>

definition getMetricDuration :: "'p Deps \<Rightarrow> string \<Rightarrow> EnrichedSqlMetric list \<Rightarrow> real option" where
  "getMetricDuration D metricName ms =
     (case find (\<lambda>metric. mname metric = metricName) ms of
        None \<Rightarrow> None
      | Some metric \<Rightarrow>
          timeStringToMilliseconds D (extractTotalFromStatisticsMetric D (mvalue metric)))"

definition calcCodegenDuration :: "'p Deps \<Rightarrow> EnrichedSqlMetric list \<Rightarrow> real option" where
  "calcCodegenDuration D ms = getMetricDuration D ''duration'' ms"

definition calcExchangeMetrics ::
  "'p Deps \<Rightarrow> string \<Rightarrow> EnrichedSqlMetric list \<Rightarrow> ExchangeMetrics option" where
  "calcExchangeMetrics D nm ms =
     (if nm = ''Exchange'' then
        (let writeDuration = nullish (getMetricDuration D ''shuffle write time'' ms) 0;
             readDuration =
               nullish (getMetricDuration D ''fetch wait time'' ms) 0 +
               nullish (getMetricDuration D ''remote reqs duration'' ms) 0 +
               nullish (getMetricDuration D ''remote merged reqs duration'' ms) 0
         in Some \<lparr>writeDuration = writeDuration, readDuration = readDuration,
                  duration = writeDuration + readDuration\<rparr>)
      else None)"

text \<open>The sum of the build and collect times is an expression statement of its own
  in the source; only the broadcast time is returned.\<close>

definition calcBroadcastExchangeDuration ::
  "'p Deps \<Rightarrow> string \<Rightarrow> EnrichedSqlMetric list \<Rightarrow> real option" where
  "calcBroadcastExchangeDuration D nm ms =
     (if nm = ''BroadcastExchange''
      then Some (nullish (getMetricDuration D ''time to broadcast'' ms) 0)
      else None)"

section \<open>Derived metrics\<close>

definition addFilterRatioMetric ::
  "'p Deps \<Rightarrow> 'p EnrichedSqlNode \<Rightarrow> EnrichedSqlMetric list \<Rightarrow> Graph
     \<Rightarrow> 'p EnrichedSqlNode list \<Rightarrow> EnrichedSqlMetric option" where
  "addFilterRatioMetric D node updatedMetrics graph allNodes =
     (if includesStr (nodeName node) ''Filter'' \<or> enrichedName node = ''Distinct'' then
        (let inputRows =
               (case findLastNodeWithInputRows D node graph allNodes of
                  None \<Rightarrow> 0
                | Some inputNode \<Rightarrow>
                    (case getRowsFromMetrics D (Some (metrics inputNode)) of
                       None \<Rightarrow> 0
                     | Some foundInputRows \<Rightarrow> foundInputRows))
         in if inputRows = 0 then None
            else
              (case find (\<lambda>m. includesStr (mname m) ''rows'') updatedMetrics of
                 None \<Rightarrow> None
               | Some outputRowsMetric \<Rightarrow>
                   (case parseFloat D (removeCommas (mvalue outputRowsMetric)) of
                      None \<Rightarrow> None
                    | Some outputRows \<Rightarrow>
                        Some \<lparr>mname = ''Rows Filtered'',
                              mvalue = toFixed D
                                (calculatePercentage D (inputRows - outputRows) inputRows) 2
                                @ ''%''\<rparr>)))
      else None)"

definition addCrossJoinFilterRatioMetric ::
  "'p Deps \<Rightarrow> 'p EnrichedSqlNode \<Rightarrow> EnrichedSqlMetric list \<Rightarrow> Graph
     \<Rightarrow> 'p EnrichedSqlNode list \<Rightarrow> EnrichedSqlMetric list option" where
  "addCrossJoinFilterRatioMetric D node updatedMetrics graph allNodes =
     (if nodeName node = ''BroadcastNestedLoopJoin'' \<or> nodeName node = ''CartesianProduct'' then
        (case inEdges graph (nodeId node) of
           None \<Rightarrow> None
         | Some inputEdges \<Rightarrow>
             if length inputEdges \<noteq> 2 then None
             else
               (let inputNodes =
                      map (\<lambda>edge. find (\<lambda>n. nodeId n = fst edge) allNodes) inputEdges;
                    inputNodesRows =
                      filter (\<lambda>row. row \<noteq> None)
                        (map (\<lambda>n. getRowsFromMetrics D (map_option metrics n)) inputNodes)
                in case inputNodesRows of
                     [Some rows0, Some rows1] \<Rightarrow>
                       (case getRowsFromMetrics D (Some updatedMetrics) of
                          None \<Rightarrow> None
                        | Some crossJoinRows \<Rightarrow>
                            (let crossJoinScannedRows = rows0 * rows1;
                                 crossJoinFilteredRatio =
                                   toFixed D
                                     (100 - calculatePercentage D crossJoinRows crossJoinScannedRows) 2
                             in Some [\<lparr>mname = ''Cross Join Scanned Rows'',
                                        mvalue = numberToString D crossJoinScannedRows\<rparr>,
                                      \<lparr>mname = ''Rows Filtered'',
                                        mvalue = crossJoinFilteredRatio @ ''%''\<rparr>]))
                   | _ \<Rightarrow> None))
      else None)"

text \<open>The function that \<^verbatim>\<open>addJoinMetrics\<close> maps over the incoming edges of a join: the
  row count of the nearest upstream node that has one, or \<^verbatim>\<open>null\<close>.\<close>

definition joinInputRows ::
  "'p Deps \<Rightarrow> Graph \<Rightarrow> 'p EnrichedSqlNode list \<Rightarrow> int \<times> int \<Rightarrow> real option" where
  "joinInputRows D graph allNodes edge =
     (case find (\<lambda>n. nodeId n = fst edge) allNodes of
        None \<Rightarrow> None
      | Some node \<Rightarrow>
          (case findLastNodeWithInputRows D node graph allNodes of
             None \<Rightarrow> None
           | Some nodeWithRows \<Rightarrow> getRowsFromMetrics D (Some (metrics nodeWithRows))))"

definition addJoinMetrics ::
  "'p Deps \<Rightarrow> 'p EnrichedSqlNode \<Rightarrow> EnrichedSqlMetric list \<Rightarrow> Graph
     \<Rightarrow> 'p EnrichedSqlNode list \<Rightarrow> EnrichedSqlMetric list option" where
  "addJoinMetrics D node updatedMetrics graph allNodes =
     (if nodeName node = ''BroadcastHashJoin'' \<or> nodeName node = ''SortMergeJoin''
         \<or> nodeName node = ''ShuffleHashJoin'' then
        (case inEdges graph (nodeId node) of
           None \<Rightarrow> None
         | Some inputEdges \<Rightarrow>
             if length inputEdges \<noteq> 2 then None
             else
               (case filter (\<lambda>rows. rows \<noteq> None)
                       (map (joinInputRows D graph allNodes) inputEdges) of
                  [Some rows0, Some rows1] \<Rightarrow>
                    (case getRowsFromMetrics D (Some updatedMetrics) of
                       None \<Rightarrow> None
                     | Some joinOutputRows \<Rightarrow>
                         (let maxInputRows = max rows0 rows1;
                              joinRatio =
                                (if maxInputRows \<noteq> 0 then jsDivide joinOutputRows maxInputRows
                                 else Finite 0)
                          in if exceeds joinRatio 1 then
                               Some [\<lparr>mname = ''join rows increase ratio'',
                                      mvalue = quotientToFixed D joinRatio 1 @ ''X''\<rparr>]
                             else
                               Some [\<lparr>mname = ''join rows filtered'',
                                      mvalue = toFixed D
                                        (calculatePercentage D joinOutputRows maxInputRows) 2
                                        @ ''%''\<rparr>]))
                | _ \<Rightarrow> None))
      else None)"

definition updateNodeMetrics ::
  "'p Deps \<Rightarrow> 'p EnrichedSqlNode \<Rightarrow> EnrichedSqlMetric list \<Rightarrow> Graph
     \<Rightarrow> 'p EnrichedSqlNode list \<Rightarrow> EnrichedSqlMetric list" where
  "updateNodeMetrics D node ms graph allNodes =
     (let updatedOriginalMetrics = calcNodeMetrics D (ntype node) ms;
          filterRatio = addFilterRatioMetric D node updatedOriginalMetrics graph allNodes;
          crossJoinFilterRatio =
            addCrossJoinFilterRatioMetric D node updatedOriginalMetrics graph allNodes;
          joinMetrics = addJoinMetrics D node updatedOriginalMetrics graph allNodes
      in updatedOriginalMetrics
         @ (case filterRatio of None \<Rightarrow> [] | Some m \<Rightarrow> [m])
         @ (case crossJoinFilterRatio of None \<Rightarrow> [] | Some ms' \<Rightarrow> ms')
         @ (case joinMetrics of None \<Rightarrow> [] | Some ms' \<Rightarrow> ms'))"

section \<open>Enriching one execution\<close>

text \<open>The callback of the first \<^verbatim>\<open>map\<close> of \<^verbatim>\<open>calculateSql\<close>, with its local function
  \<^verbatim>\<open>extractCodegenId\<close>.\<close>

definition extractCodegenId :: "'p Deps \<Rightarrow> SqlNode \<Rightarrow> idnum" where
  "extractCodegenId D node =
     parseInt D
       (replaceFirst (replaceFirst (nodeName node) ''WholeStageCodegen ('' []) '')'' [])"

definition typeEnrichNode ::
  "'p Deps \<Rightarrow> SqlNode SparkSQL \<Rightarrow> SQLPlan option \<Rightarrow> IcebergCommitsInfo option \<Rightarrow> SqlNode
     \<Rightarrow> 'p EnrichedSqlNode" where
  "typeEnrichNode D sql plan commit node =
     (let type = calcNodeType D (nodeName node);
          nodePlan =
            (case plan of
               None \<Rightarrow> None
             | Some p \<Rightarrow> find (\<lambda>planNode. planNodeId planNode = nodeId node) (nodesPlan p));
          parsed = (case nodePlan of None \<Rightarrow> None | Some np \<Rightarrow> parseNodePlan D node np);
          codegen = includesStr (nodeName node) ''WholeStageCodegen''
      in \<lparr>nodeId = nodeId node,
          nodeName = nodeName node,
          metrics = metrics node,
          wholeStageCodegenId =
            (if codegen then Some (extractCodegenId D node) else wholeStageCodegenId node),
          rddScopeId = (case nodePlan of None \<Rightarrow> None | Some np \<Rightarrow> planRddScopeId np),
          ntype = type,
          parsedPlan = parsed,
          enrichedName = nodeEnrichedNameBuilder D (nodeName node) parsed,
          isCodegenNode = codegen,
          icebergCommit =
            (if type = ''output'' \<or> length (nodes sql) = 1 then commit else None),
          codegenDuration = None,
          exchangeMetrics = None,
          exchangeBroadcastDuration = None\<rparr>)"

text \<open>
  When no graph node has the category \<^verbatim>\<open>output\<close>, the last graph node that is not
  named \<^verbatim>\<open>AdaptiveSparkPlan\<close> or \<^verbatim>\<open>ResultQueryStage\<close> is assigned it. Without such a
  node \<^verbatim>\<open>lastNode\<close> is \<^verbatim>\<open>undefined\<close> and the assignment throws a \<^verbatim>\<open>TypeError\<close>.
\<close>

definition forceOutput :: "'p EnrichedSqlNode list \<Rightarrow> jsError + 'p EnrichedSqlNode list" where
  "forceOutput onlyGraphNodes =
     (if length (filter (\<lambda>node. ntype node = ''output'') onlyGraphNodes) = 0 then
        (let keep = (\<lambda>node. nodeName node \<noteq> ''AdaptiveSparkPlan''
                           \<and> nodeName node \<noteq> ''ResultQueryStage'');
             aqeFilteredNodes = filter keep onlyGraphNodes
         in if aqeFilteredNodes = [] then Inl TypeError
            else Inr (updateLastWhere keep (\<lambda>lastNode. lastNode\<lparr>ntype := ''output''\<rparr>)
                        onlyGraphNodes))
      else Inr onlyGraphNodes)"

text \<open>The callback of the \<^verbatim>\<open>map\<close> that computes \<^verbatim>\<open>metricEnrichedNodes\<close>.\<close>

definition metricEnrichNode ::
  "'p Deps \<Rightarrow> SqlNode SparkSQL \<Rightarrow> 'p EnrichedSqlNode list \<Rightarrow> 'p EnrichedSqlNode
     \<Rightarrow> 'p EnrichedSqlNode" where
  "metricEnrichNode D sql onlyGraphNodes node =
     (let exchange = calcExchangeMetrics D (nodeName node) (metrics node);
          broadcast = calcBroadcastExchangeDuration D (nodeName node) (metrics node);
          graph = generateGraph (edges sql) (nodes sql)
      in node\<lparr>metrics := updateNodeMetrics D node (metrics node) graph onlyGraphNodes,
              exchangeMetrics := exchange,
              exchangeBroadcastDuration := broadcast\<rparr>)"

text \<open>\<^verbatim>\<open>calculateSql\<close>. The argument \<open>gen\<close> is the state of the token source; the
  result carries the new state. \<open>stages\<close> is passed along and never read.\<close>

definition calculateSql ::
  "'p Deps \<Rightarrow> SqlNode SparkSQL \<Rightarrow> SQLPlan option \<Rightarrow> IcebergCommitsInfo option \<Rightarrow> 's \<Rightarrow> nat
     \<Rightarrow> jsError + ('p EnrichedSparkSQL \<times> nat)" where
  "calculateSql D sql plan commit stages gen =
     (let typeEnrichedNodes = map (typeEnrichNode D sql plan commit) (nodes sql);
          onlyCodeGenNodes =
            map (\<lambda>node. node\<lparr>codegenDuration := calcCodegenDuration D (metrics node)\<rparr>)
              (filter isCodegenNode typeEnrichedNodes)
      in case forceOutput (filter (\<lambda>node. \<not> isCodegenNode node) typeEnrichedNodes) of
           Inl e \<Rightarrow> Inl e
         | Inr onlyGraphNodes \<Rightarrow>
             (let metricEnrichedNodes = map (metricEnrichNode D sql onlyGraphNodes) onlyGraphNodes;
                  ioNodes =
                    filter (\<lambda>node. ntype node = ''input'' \<or> ntype node = ''output''
                                  \<or> ntype node = ''join'') onlyGraphNodes;
                  basicNodes =
                    filter (\<lambda>node. ntype node = ''input'' \<or> ntype node = ''output''
                                  \<or> ntype node = ''join'' \<or> ntype node = ''transformation'')
                      onlyGraphNodes;
                  advancedNodes = filter (\<lambda>node. ntype node \<noteq> ''other'') onlyGraphNodes;
                  basicFilteredEdges = cleanUpDAG (edges sql) onlyGraphNodes basicNodes;
                  advancedFilteredEdges = cleanUpDAG (edges sql) onlyGraphNodes advancedNodes;
                  ioFilteredEdges = cleanUpDAG (edges sql) onlyGraphNodes ioNodes;
                  command = (length (runningJobIds sql) = 0 \<and> length (failedJobIds sql) = 0
                             \<and> length (successJobIds sql) = 0);
                  u = uuidv4 gen;
                  m = uuidv4 (snd u)
              in Inr (\<lparr>sqlId = sqlId sql,
                       status = status sql,
                       sqlDuration = sqlDuration sql,
                       runningJobIds = runningJobIds sql,
                       successJobIds = successJobIds sql,
                       failedJobIds = failedJobIds sql,
                       nodes = metricEnrichedNodes,
                       edges = edges sql,
                       submissionTime = submissionTime sql,
                       codegenNodes = onlyCodeGenNodes,
                       filters =
                         \<lparr>io = \<lparr>nodesIds = map nodeId ioNodes, tierEdges = ioFilteredEdges\<rparr>,
                          basic = \<lparr>nodesIds = map nodeId basicNodes,
                                   tierEdges = basicFilteredEdges\<rparr>,
                          advanced = \<lparr>nodesIds = map nodeId advancedNodes,
                                      tierEdges = advancedFilteredEdges\<rparr>\<rparr>,
                       uniqueId = fst u,
                       metricUpdateId = fst m,
                       isSqlCommand = command,
                       originalNumOfNodes = length (nodes sql),
                       submissionTimeEpoc = timeStrToEpocTime D (submissionTime sql)\<rparr>,
                      snd m)))"

section \<open>The store of executions\<close>

fun calculateSqls ::
  "'p Deps \<Rightarrow> SqlNode SparkSQL list \<Rightarrow> SQLPlan list \<Rightarrow> IcebergInfo \<Rightarrow> 's \<Rightarrow> nat
     \<Rightarrow> jsError + ('p EnrichedSparkSQL list \<times> nat)" where
  "calculateSqls D [] plans icebergInfo stages gen = Inr ([], gen)"
| "calculateSqls D (sql # rest) plans icebergInfo stages gen =
     (let plan = find (\<lambda>plan. idEq (Num (executionId plan)) (parseInt D (sqlId sql))) plans;
          commit = find (\<lambda>plan. idEq (Num (commitExecutionId plan)) (parseInt D (sqlId sql)))
                     (commitsInfo icebergInfo)
      in case calculateSql D sql plan commit stages gen of
           Inl e \<Rightarrow> Inl e
         | Inr (x, gen') \<Rightarrow>
             (case calculateSqls D rest plans icebergInfo stages gen' of
                Inl e \<Rightarrow> Inl e
              | Inr (xs, gen'') \<Rightarrow> Inr (x # xs, gen'')))"

text \<open>
  The body of the loop of \<^verbatim>\<open>calculateSqlStore\<close> over the ids of the batch: the
  execution that is pushed for the id \<open>ident\<close>. The batch entry is looked up by its
  parsed id; an id that is \<^verbatim>\<open>NaN\<close> finds none, and reading the missing entry throws.
\<close>

definition storeEntry ::
  "'p Deps \<Rightarrow> 'p SparkSQLStore \<Rightarrow> SqlNode SparkSQL list \<Rightarrow> SQLPlan list \<Rightarrow> IcebergInfo \<Rightarrow> 's
     \<Rightarrow> idnum \<Rightarrow> nat \<Rightarrow> jsError + ('p EnrichedSparkSQL \<times> nat)" where
  "storeEntry D currentStore batch plans icebergInfo stages ident gen =
     (let newSql = find (\<lambda>existingSql. idEq (parseInt D (sqlId existingSql)) ident) batch;
          currentSql =
            find (\<lambda>existingSql. idEq (parseInt D (sqlId existingSql)) ident) (sqls currentStore);
          plan = find (\<lambda>plan. idEq (Num (executionId plan)) ident) plans;
          commit = find (\<lambda>plan. idEq (Num (commitExecutionId plan)) ident)
                     (commitsInfo icebergInfo)
      in case newSql of
           None \<Rightarrow> Inl TypeError
         | Some new \<Rightarrow>
             (case currentSql of
                None \<Rightarrow> calculateSql D new plan commit stages gen
              | Some cur \<Rightarrow>
                  if status new = Completed \<or> status new = Failed
                    then calculateSql D new plan commit stages gen
                  else if originalNumOfNodes cur \<noteq> length (nodes new)
                    then calculateSql D new plan commit stages gen
                  else Inr (cur\<lparr>sqlDuration := sqlDuration new,
                                failedJobIds := failedJobIds new,
                                runningJobIds := runningJobIds new,
                                successJobIds := successJobIds new\<rparr>, gen)))"

fun storeLoop ::
  "'p Deps \<Rightarrow> 'p SparkSQLStore \<Rightarrow> SqlNode SparkSQL list \<Rightarrow> SQLPlan list \<Rightarrow> IcebergInfo \<Rightarrow> 's
     \<Rightarrow> idnum list \<Rightarrow> 'p EnrichedSparkSQL list \<Rightarrow> nat
     \<Rightarrow> jsError + ('p EnrichedSparkSQL list \<times> nat)" where
  "storeLoop D currentStore batch plans icebergInfo stages [] updatedSqls gen =
     Inr (updatedSqls, gen)"
| "storeLoop D currentStore batch plans icebergInfo stages (ident # ids) updatedSqls gen =
     (case storeEntry D currentStore batch plans icebergInfo stages ident gen of
        Inl e \<Rightarrow> Inl e
      | Inr (x, gen') \<Rightarrow>
          storeLoop D currentStore batch plans icebergInfo stages ids (updatedSqls @ [x]) gen')"

definition calculateSqlStore ::
  "'p Deps \<Rightarrow> 'p SparkSQLStore option \<Rightarrow> SqlNode SparkSQL list \<Rightarrow> SQLPlan list \<Rightarrow> IcebergInfo
     \<Rightarrow> 's \<Rightarrow> nat \<Rightarrow> jsError + ('p SparkSQLStore \<times> nat)" where
  "calculateSqlStore D currentStore batch plans icebergInfo stages gen =
     (case currentStore of
        None \<Rightarrow>
          (case calculateSqls D batch plans icebergInfo stages gen of
             Inl e \<Rightarrow> Inl e
           | Inr (xs, gen') \<Rightarrow> Inr (\<lparr>sqls = xs\<rparr>, gen'))
      | Some store \<Rightarrow>
          (let sqlIds = map (\<lambda>sql. parseInt D (sqlId sql)) batch;
               minId = mathMin sqlIds;
               updatedSqls = filter (\<lambda>sql. idLess (parseInt D (sqlId sql)) minId) (sqls store)
           in case storeLoop D store batch plans icebergInfo stages sqlIds updatedSqls gen of
                Inl e \<Rightarrow> Inl e
              | Inr (xs, gen') \<Rightarrow> Inr (\<lparr>sqls = xs\<rparr>, gen')))"

section \<open>Example plans\<close>

definition mkNode :: "int \<Rightarrow> string \<Rightarrow> SqlNode" where
  "mkNode i nm = \<lparr>nodeId = i, nodeName = nm, metrics = [], wholeStageCodegenId = None\<rparr>"

text \<open>The plan of the end-to-end scenario of the specification:
  \<^verbatim>\<open>Scan(0) -> Filter(1) -> Exchange(2) -> HashAggregate(3)\<close>, with the nodes that the
  I/O tier keeps.\<close>

definition chainEdges :: "EnrichedSqlEdge list" where
  "chainEdges =
     [\<lparr>fromId = 0, toId = 1\<rparr>, \<lparr>fromId = 1, toId = 2\<rparr>, \<lparr>fromId = 2, toId = 3\<rparr>]"

definition chainNodes :: "SqlNode list" where
  "chainNodes =
     [mkNode 0 ''Scan'', mkNode 1 ''Filter'', mkNode 2 ''Exchange'', mkNode 3 ''HashAggregate'']"

definition chainIo :: "SqlNode list" where
  "chainIo = [mkNode 0 ''Scan'', mkNode 3 ''HashAggregate'']"




section \<open>A concrete instance of the imported functions\<close>

text \<open>
  To run the model on examples, the parameters are instantiated: the built-ins on
  non-negative decimal numerals, the parsers by the identity on the description, and
  the helpers as follows.
\<close>

definition digitChar :: "nat \<Rightarrow> char" where
  "digitChar d = ''0123456789'' ! d"

fun showNat :: "nat \<Rightarrow> string" where
  "showNat n = (if n < 10 then [digitChar n] else showNat (n div 10) @ [digitChar (n mod 10)])"

declare showNat.simps [simp del]

definition padLeft :: "nat \<Rightarrow> string \<Rightarrow> string" where
  "padLeft k s = replicate (k - length s) CHR ''0'' @ s"

text \<open>\<^verbatim>\<open>x.toFixed(d)\<close> on exact numbers: the nearest number with \<open>d\<close> decimals, the
  larger one of two, printed with \<open>d\<close> decimals.\<close>

definition exToFixed :: "real \<Rightarrow> nat \<Rightarrow> string" where
  "exToFixed x d =
     (let n = nat \<lfloor>\<bar>x\<bar> * 10 ^ d + 1 / 2\<rfloor>;
          body = showNat (n div 10 ^ d)
                 @ (if d = 0 then [] else CHR ''.'' # padLeft d (showNat (n mod 10 ^ d)))
      in if x < 0 \<and> n \<noteq> 0 then CHR ''-'' # body else body)"

definition digitVal :: "char \<Rightarrow> nat option" where
  "digitVal c = map_of (zip ''0123456789'' [0, 1, 2, 3, 4, 5, 6, 7, 8, 9]) c"

text \<open>The longest prefix of decimal digits, read as a number; \<open>None\<close> without a
  digit.\<close>

fun readDigits :: "string \<Rightarrow> nat option \<Rightarrow> nat option" where
  "readDigits [] acc = acc"
| "readDigits (c # cs) acc =
     (case digitVal c of
        None \<Rightarrow> acc
      | Some d \<Rightarrow> readDigits cs (Some (10 * (case acc of None \<Rightarrow> 0 | Some a \<Rightarrow> a) + d)))"

definition exParseInt :: "string \<Rightarrow> idnum" where
  "exParseInt s = (case readDigits s None of None \<Rightarrow> NaN | Some n \<Rightarrow> Num (int n))"

definition exParseFloat :: "string \<Rightarrow> real option" where
  "exParseFloat s = map_option real (readDigits s None)"

text \<open>Modelled from the spec: \<^verbatim>\<open>getRowsFromMetrics\<close> (\<^verbatim>\<open>PlanGraphUtils.ts\<close>) is not in the
  source at hand. The glossary calls the row-count metric a per-node counter of rows;
  the instance reads the first metric whose name contains \<^verbatim>\<open>rows\<close>, as
  \<^verbatim>\<open>addFilterRatioMetric\<close> does for the node's own count.\<close>

definition exGetRows :: "EnrichedSqlMetric list option \<Rightarrow> real option" where
  "exGetRows mso =
     (case mso of
        None \<Rightarrow> None
      | Some ms \<Rightarrow>
          (case find (\<lambda>m. includesStr (mname m) ''rows'') ms of
             None \<Rightarrow> None
           | Some m \<Rightarrow> exParseFloat (removeCommas (mvalue m))))"

text \<open>Modelled from the spec: \<^verbatim>\<open>findLastNodeWithInputRows\<close> (\<^verbatim>\<open>PlanGraphUtils.ts\<close>) is
  not in the source at hand. Section 4.5: starting from the predecessors of a node,
  follow single-predecessor chains until a node with a row-count metric is found or
  the chain ends; the walk is bounded by the number of nodes.\<close>

fun upstreamWalk ::
  "nat \<Rightarrow> Graph \<Rightarrow> 'p EnrichedSqlNode list \<Rightarrow> int \<Rightarrow> 'p EnrichedSqlNode option" where
  "upstreamWalk 0 g allNodes v = None"
| "upstreamWalk (Suc k) g allNodes v =
     (case inEdges g v of
        Some [e] \<Rightarrow>
          (case find (\<lambda>n. nodeId n = fst e) allNodes of
             None \<Rightarrow> None
           | Some n \<Rightarrow>
               if exGetRows (Some (metrics n)) \<noteq> None then Some n
               else upstreamWalk k g allNodes (nodeId n))
      | _ \<Rightarrow> None)"

definition exFindLast ::
  "'p EnrichedSqlNode \<Rightarrow> Graph \<Rightarrow> 'p EnrichedSqlNode list \<Rightarrow> 'p EnrichedSqlNode option" where
  "exFindLast node g allNodes = upstreamWalk (length allNodes) g allNodes (nodeId node)"

text \<open>Modelled from the spec: \<^verbatim>\<open>calcNodeType\<close> (\<^verbatim>\<open>SqlReducerUtils.ts\<close>) is not in the
  source at hand. Section 4.1: a name that contains \<^verbatim>\<open>Scan\<close> is an input, one that
  contains \<^verbatim>\<open>Join\<close> a join; the end-to-end scenario of section 8 has Filter and
  Exchange as transformations, and HashAggregate becomes the output as the last
  node.\<close>

definition exCalcNodeType :: "string \<Rightarrow> string" where
  "exCalcNodeType nm =
     (if includesStr nm ''Scan'' then ''input''
      else if includesStr nm ''Join'' then ''join''
      else if nm = ''Filter'' \<or> nm = ''Exchange'' \<or> nm = ''HashAggregate''
        then ''transformation''
      else ''other'')"

text \<open>Modelled from the spec: \<^verbatim>\<open>calculatePercentage\<close> (\<^verbatim>\<open>FormatUtils.ts\<close>) is not in the
  source at hand. Section 8 has the percentage within 0 and 100; the instance is the
  share of the value in the total, clamped to that range, and 0 for a total of 0.\<close>

definition exCalculatePercentage :: "real \<Rightarrow> real \<Rightarrow> real" where
  "exCalculatePercentage v t = (if t = 0 then 0 else min (max (v / t * 100) 0) 100)"

definition exDeps :: "string Deps" where
  "exDeps =
     \<lparr>parseHashAggregate = Inr, parseTakeOrderedAndProject = Inr, parseCollectLimit = Inr,
      parseCoalesce = Inr, parseWriteToHDFS = Inr, parseFilter = Inr, parseExchange = Inr,
      parseProject = Inr, parseSort = Inr, parseWindow = Inr,
      parseFileScan = (\<lambda>d nm. Inr d), parseJoin = Inr,
      calcNodeType = exCalcNodeType,
      calcNodeMetrics = (\<lambda>t ms. ms),
      nodeEnrichedNameBuilder = (\<lambda>nm p. nm),
      extractTotalFromStatisticsMetric = (\<lambda>s. s),
      timeStringToMilliseconds = exParseFloat,
      timeStrToEpocTime = (\<lambda>s. 0),
      calculatePercentage = exCalculatePercentage,
      findLastNodeWithInputRows = exFindLast,
      getRowsFromMetrics = exGetRows,
      parseInt = exParseInt,
      parseFloat = exParseFloat,
      toFixed = exToFixed,
      numberToString = (\<lambda>x. showNat (nat \<lfloor>x\<rfloor>))\<rparr>"

section \<open>Example nodes, metrics and executions\<close>

definition enriched ::
  "int \<Rightarrow> string \<Rightarrow> string \<Rightarrow> EnrichedSqlMetric list \<Rightarrow> string EnrichedSqlNode" where
  "enriched i nm t ms =
     \<lparr>nodeId = i, nodeName = nm, metrics = ms, wholeStageCodegenId = None,
      rddScopeId = None, ntype = t, parsedPlan = None, enrichedName = nm,
      isCodegenNode = False, icebergCommit = None, codegenDuration = None,
      exchangeMetrics = None, exchangeBroadcastDuration = None\<rparr>"

definition rowsMetric :: "string \<Rightarrow> EnrichedSqlMetric list" where
  "rowsMetric r = [\<lparr>mname = ''number of output rows'', mvalue = r\<rparr>]"

text \<open>Two scans of 100 and 200 rows that reach a sort-merge join through an exchange
  each (the join example of section 8).\<close>

definition joinNodes :: "string EnrichedSqlNode list" where
  "joinNodes =
     [enriched 0 ''Scan parquet'' ''input'' (rowsMetric ''100''),
      enriched 1 ''Exchange'' ''transformation'' [],
      enriched 2 ''Scan parquet'' ''input'' (rowsMetric ''200''),
      enriched 3 ''Exchange'' ''transformation'' [],
      enriched 4 ''SortMergeJoin'' ''join'' (rowsMetric ''50'')]"

text \<open>The same plan with scans that return no row.\<close>

definition emptyJoinNodes :: "string EnrichedSqlNode list" where
  "emptyJoinNodes =
     [enriched 0 ''Scan parquet'' ''input'' (rowsMetric ''0''),
      enriched 1 ''Exchange'' ''transformation'' [],
      enriched 2 ''Scan parquet'' ''input'' (rowsMetric ''0''),
      enriched 3 ''Exchange'' ''transformation'' [],
      enriched 4 ''SortMergeJoin'' ''join'' (rowsMetric ''50'')]"



definition joinGraph :: Graph where
  "joinGraph = \<lparr>gnodes = [0, 1, 2, 3, 4], gedges = [(0, 1), (2, 3), (1, 4), (3, 4)]\<rparr>"



definition cometFilterPlan :: SQLNodePlan where
  "cometFilterPlan =
     \<lparr>planNodeId = 5, planDescription = ''CometFilter (a > 1)'', planRddScopeId = None\<rparr>"

definition exchangeTimes :: "EnrichedSqlMetric list" where
  "exchangeTimes =
     [\<lparr>mname = ''shuffle write time'', mvalue = ''5''\<rparr>,
      \<lparr>mname = ''fetch wait time'', mvalue = ''7''\<rparr>,
      \<lparr>mname = ''remote reqs duration'', mvalue = ''2''\<rparr>]"

text \<open>Executions of a snapshot: the chain of the end-to-end scenario, an
  execution over a given list of nodes, and an execution with the id 7 over a scan
  (and a filter), with the results of materializing it by hand.\<close>

definition rowsNode :: "int \<Rightarrow> string \<Rightarrow> string \<Rightarrow> SqlNode" where
  "rowsNode i nm r =
     \<lparr>nodeId = i, nodeName = nm, metrics = rowsMetric r, wholeStageCodegenId = None\<rparr>"

definition chainSql :: "SqlStatus \<Rightarrow> SqlNode SparkSQL" where
  "chainSql st =
     \<lparr>sqlId = ''7'', status = st, sqlDuration = 10, runningJobIds = [1], successJobIds = [],
      failedJobIds = [],
      nodes = [rowsNode 0 ''Scan parquet'' ''1,000'', rowsNode 1 ''Filter'' ''1,000'',
               rowsNode 2 ''Exchange'' ''1,000'', rowsNode 3 ''HashAggregate'' ''10''],
      edges = chainEdges, submissionTime = ''2024-01-01''\<rparr>"

definition wrapperSql :: "SqlNode list \<Rightarrow> SqlNode SparkSQL" where
  "wrapperSql ns =
     \<lparr>sqlId = ''8'', status = Running, sqlDuration = 1, runningJobIds = [], successJobIds = [],
      failedJobIds = [], nodes = ns, edges = [], submissionTime = ''2024-01-01''\<rparr>"

definition snapshot :: "SqlStatus \<Rightarrow> real \<Rightarrow> SqlNode list \<Rightarrow> SqlNode SparkSQL" where
  "snapshot st d ns =
     \<lparr>sqlId = ''7'', status = st, sqlDuration = d, runningJobIds = [1], successJobIds = [],
      failedJobIds = [], nodes = ns, edges = [], submissionTime = ''2024-01-01''\<rparr>"

definition scanOnly :: "SqlNode list" where
  "scanOnly = [rowsNode 0 ''Scan parquet'' ''100'']"

definition scanAndFilter :: "SqlNode list" where
  "scanAndFilter = [rowsNode 0 ''Scan parquet'' ''100'', rowsNode 1 ''Filter'' ''40'']"

definition noIceberg :: IcebergInfo where
  "noIceberg = \<lparr>commitsInfo = []\<rparr>"

definition materialized :: "SqlStatus \<Rightarrow> real \<Rightarrow> nat \<Rightarrow> string EnrichedSparkSQL" where
  "materialized st d g =
     \<lparr>sqlId = ''7'', status = st, sqlDuration = d, runningJobIds = [1], successJobIds = [],
      failedJobIds = [],
      nodes = [enriched 0 ''Scan parquet'' ''output'' (rowsMetric ''100'')],
      edges = [], submissionTime = ''2024-01-01'', codegenNodes = [],
      filters = \<lparr>io = \<lparr>nodesIds = [0], tierEdges = []\<rparr>,
                 basic = \<lparr>nodesIds = [0], tierEdges = []\<rparr>,
                 advanced = \<lparr>nodesIds = [0], tierEdges = []\<rparr>\<rparr>,
      uniqueId = g, metricUpdateId = Suc g, isSqlCommand = False,
      originalNumOfNodes = 1, submissionTimeEpoc = 0\<rparr>"

definition rematerialized :: "nat \<Rightarrow> string EnrichedSparkSQL" where
  "rematerialized g =
     \<lparr>sqlId = ''7'', status = Running, sqlDuration = 20, runningJobIds = [1], successJobIds = [],
      failedJobIds = [],
      nodes = [enriched 0 ''Scan parquet'' ''input'' (rowsMetric ''100''),
               enriched 1 ''Filter'' ''output'' (rowsMetric ''40'')],
      edges = [], submissionTime = ''2024-01-01'', codegenNodes = [],
      filters = \<lparr>io = \<lparr>nodesIds = [0, 1], tierEdges = []\<rparr>,
                 basic = \<lparr>nodesIds = [0, 1], tierEdges = []\<rparr>,
                 advanced = \<lparr>nodesIds = [0, 1], tierEdges = []\<rparr>\<rparr>,
      uniqueId = g, metricUpdateId = Suc g, isSqlCommand = False,
      originalNumOfNodes = 2, submissionTimeEpoc = 0\<rparr>"

definition progressed :: "SqlNode SparkSQL" where
  "progressed = (snapshot Running 25 scanOnly)\<lparr>runningJobIds := [], successJobIds := [1]\<rparr>"

definition older :: "string EnrichedSparkSQL" where
  "older = (materialized Completed 5 0)\<lparr>sqlId := ''3''\<rparr>"

section \<open>Properties of the graph operations\<close>

lemmas graph_eval =
  generateGraph_def contractNode_def inEdges_def outEdges_def setEdge_def setNode_def
  removeNode_def hasNode_def emptyGraph_def Let_def

lemma hasNode_setNode: "hasNode (setNode g v) u = (hasNode g u \<or> u = v)"
  by (auto simp: setNode_def hasNode_def)


lemma hasNode_gedges_update: "hasNode (g\<lparr>gedges := es\<rparr>) u = hasNode g u"
  by (simp add: hasNode_def)

lemma hasNode_setEdge: "hasNode g u \<Longrightarrow> hasNode (setEdge g v w) u"
  by (simp add: setEdge_def Let_def hasNode_setNode hasNode_gedges_update)


lemma hasNode_rewire:
  "hasNode g u \<Longrightarrow> hasNode (foldl (\<lambda>g' i. setEdge g' (fst i) w) g ins) u"
  by (induction ins arbitrary: g) (simp_all add: hasNode_setEdge)


lemma hasNode_removeNode: "hasNode (removeNode g v) u = (hasNode g u \<and> u \<noteq> v)"
  by (auto simp: removeNode_def hasNode_def)

lemma hasNode_generateGraph_nodes:
  assumes "u \<in> nodeId ` set N"
  shows "hasNode (generateGraph E N) u"
proof -
  have a: "hasNode (foldl (\<lambda>g n. setNode g (nodeId n)) g N) u
             = (hasNode g u \<or> u \<in> nodeId ` set N)" for g
    by (induction N arbitrary: g) (auto simp: hasNode_setNode)
  have b: "hasNode g u \<Longrightarrow> hasNode (foldl (\<lambda>g e. setEdge g (fromId e) (toId e)) g E) u" for g
    by (induction E arbitrary: g) (auto simp: hasNode_setEdge)
  show ?thesis unfolding generateGraph_def using assms by (intro b) (simp add: a)
qed

section \<open>Properties of the contractor\<close>

lemma hasNode_contractNode:
  "hasNode g u \<Longrightarrow> u \<noteq> n \<Longrightarrow> hasNode (contractNode g n) u"
  by (auto simp: contractNode_def hasNode_removeNode hasNode_rewire
      split: option.splits list.splits)

lemma hasNode_contract_loop:
  "hasNode g u \<Longrightarrow> u \<notin> nodeId ` set ns \<Longrightarrow>
     hasNode (foldl (\<lambda>g node. contractNode g (nodeId node)) g ns) u"
  by (induction ns arbitrary: g) (auto simp: hasNode_contractNode)

lemma cleanUpDAG_endpoints:
  "e \<in> set (cleanUpDAG E N V) \<Longrightarrow> fromId e \<in> nodeId ` set V \<and> toId e \<in> nodeId ` set V"
  by (auto simp: cleanUpDAG_def Let_def)


lemma visible_kept:
  "hasNode (generateGraph E N) u \<Longrightarrow> u \<in> nodeId ` set V \<Longrightarrow>
     hasNode (contractedGraph E N V) u"
  unfolding contractedGraph_def
  by (rule hasNode_contract_loop) (force simp: notVisibleNodes_def)+



text \<open>
  Claim C1. For every edge list \<open>E\<close>, node list \<open>N\<close> and visible list \<open>V\<close>, every edge
  returned by \<open>cleanUpDAG E N V\<close> has its \<open>fromId\<close> and its \<open>toId\<close> among the node ids
  of \<open>V\<close>; and the removal loop never removes a visible node: a node of \<open>V\<close> that is
  in the generated graph is still in the graph after the loop, which is every node
  of \<open>V\<close> when the ids of \<open>V\<close> are among those of \<open>N\<close>.
\<close>

theorem cleanUpDAG_edges_within_visible:
  "(\<forall>e \<in> set (cleanUpDAG E N V).
       fromId e \<in> nodeId ` set V \<and> toId e \<in> nodeId ` set V) \<and>
   (\<forall>v \<in> set V. hasNode (generateGraph E N) (nodeId v) \<longrightarrow>
       hasNode (contractedGraph E N V) (nodeId v)) \<and>
   (nodeId ` set V \<subseteq> nodeId ` set N \<longrightarrow>
       (\<forall>v \<in> set V. hasNode (contractedGraph E N V) (nodeId v)))"
proof (intro conjI ballI impI)
  fix e assume "e \<in> set (cleanUpDAG E N V)"
  then show "fromId e \<in> nodeId ` set V" "toId e \<in> nodeId ` set V"
    by (simp_all add: cleanUpDAG_endpoints)
next
  fix v assume "v \<in> set V" "hasNode (generateGraph E N) (nodeId v)"
  then show "hasNode (contractedGraph E N V) (nodeId v)"
    by (simp add: visible_kept)
next
  fix v assume "nodeId ` set V \<subseteq> nodeId ` set N" "v \<in> set V"
  then have "nodeId v \<in> nodeId ` set N" by blast
  then have "hasNode (generateGraph E N) (nodeId v)" by (rule hasNode_generateGraph_nodes)
  with \<open>v \<in> set V\<close> show "hasNode (contractedGraph E N V) (nodeId v)"
    by (simp add: visible_kept)
qed

theorem cleanUpDAG_edges_within_visible_witness:
  "cleanUpDAG chainEdges chainNodes chainIo = [\<lparr>fromId = 0, toId = 3\<rparr>] \<and>
   nodeId ` set chainIo \<subseteq> nodeId ` set chainNodes \<and>
   fromId \<lparr>fromId = 0, toId = 3\<rparr> \<in> nodeId ` set chainIo \<and>
   toId \<lparr>fromId = 0, toId = 3\<rparr> \<in> nodeId ` set chainIo \<and>
   hasNode (contractedGraph chainEdges chainNodes chainIo) 0 \<and>
   hasNode (contractedGraph chainEdges chainNodes chainIo) 3"
proof -
  have 1: "cleanUpDAG chainEdges chainNodes chainIo = [\<lparr>fromId = 0, toId = 3\<rparr>]"
    by (simp add: cleanUpDAG_def contractedGraph_def notVisibleNodes_def chainEdges_def
        chainNodes_def chainIo_def mkNode_def graph_eval)
  have 2: "nodeId ` set chainIo \<subseteq> nodeId ` set chainNodes"
    by (simp add: chainIo_def chainNodes_def mkNode_def)
  have 3: "mkNode 0 ''Scan'' \<in> set chainIo" "mkNode 3 ''HashAggregate'' \<in> set chainIo"
    by (simp_all add: chainIo_def)
  have 4: "nodeId (mkNode 0 ''Scan'') = 0" "nodeId (mkNode 3 ''HashAggregate'') = 3"
    by (simp_all add: mkNode_def)
  note inst = cleanUpDAG_edges_within_visible [of chainEdges chainNodes chainIo]
  have 5: "\<lparr>fromId = 0, toId = 3\<rparr> \<in> set (cleanUpDAG chainEdges chainNodes chainIo)"
    by (simp add: 1)
  from inst 5 have 6: "fromId \<lparr>fromId = 0, toId = 3\<rparr> \<in> nodeId ` set chainIo"
    "toId \<lparr>fromId = 0, toId = 3\<rparr> \<in> nodeId ` set chainIo" by blast+
  from inst 2 3 have "hasNode (contractedGraph chainEdges chainNodes chainIo) (nodeId (mkNode 0 ''Scan''))"
    "hasNode (contractedGraph chainEdges chainNodes chainIo) (nodeId (mkNode 3 ''HashAggregate''))"
    by blast+
  then have 7: "hasNode (contractedGraph chainEdges chainNodes chainIo) 0"
    "hasNode (contractedGraph chainEdges chainNodes chainIo) 3"
    by (simp_all only: 4)
  show ?thesis using 1 2 6 7 by blast
qed







section \<open>Properties of the plan parser and of the derived metrics\<close>

lemmas ex_eval = exDeps_def exGetRows_def exParseFloat_def digitVal_def removeCommas_def
  exFindLast_def exToFixed_def exCalculatePercentage_def showNat.simps padLeft_def digitChar_def


lemma tagged_ptype: "tagged t r = Some p \<Longrightarrow> ptype p = t"
  by (auto simp: tagged_def split: sum.splits)

text \<open>
  Claim C10. For a node named \<^verbatim>\<open>CometFilter\<close> with a plan description,
  \<open>parseNodePlan\<close> returns the result of \<open>parseFilter\<close> under the tag \<^verbatim>\<open>Filter\<close>
  (and \<^verbatim>\<open>undefined\<close> when that parser throws); whatever it returns is tagged
  \<^verbatim>\<open>Filter\<close>, never \<^verbatim>\<open>Project\<close>: the second label \<^verbatim>\<open>CometFilter\<close> is unreachable.
\<close>

theorem parseNodePlan_CometFilter_is_Filter:
  assumes "nodeName node = ''CometFilter''"
  shows "parseNodePlan D node np =
           (case parseFilter D (planDescription np) of
              Inl e \<Rightarrow> None
            | Inr v \<Rightarrow> Some \<lparr>ptype = ''Filter'', pplan = v\<rparr>) \<and>
         (\<forall>p. parseNodePlan D node np = Some p \<longrightarrow> ptype p = ''Filter'' \<and> ptype p \<noteq> ''Project'')"
proof -
  have eq: "parseNodePlan D node np = tagged ''Filter'' (parseFilter D (planDescription np))"
    using assms by (simp add: parseNodePlan_def)
  have "\<forall>p. parseNodePlan D node np = Some p \<longrightarrow> ptype p = ''Filter'' \<and> ptype p \<noteq> ''Project''"
    unfolding eq by (auto dest: tagged_ptype)
  with eq show ?thesis by (simp add: tagged_def)
qed

theorem parseNodePlan_CometFilter_is_Filter_witness:
  "nodeName (mkNode 5 ''CometFilter'') = ''CometFilter'' \<and>
   parseNodePlan exDeps (mkNode 5 ''CometFilter'') cometFilterPlan
     = Some \<lparr>ptype = ''Filter'', pplan = ''CometFilter (a > 1)''\<rparr>"
proof -
  have n: "nodeName (mkNode 5 ''CometFilter'') = ''CometFilter''" by (simp add: mkNode_def)
  from parseNodePlan_CometFilter_is_Filter [OF n, of exDeps cometFilterPlan] n show ?thesis
    by (simp add: exDeps_def cometFilterPlan_def)
qed

lemma getMetricDuration_absent:
  "find (\<lambda>m. mname m = n) ms = None \<Longrightarrow> getMetricDuration D n ms = None"
  by (simp add: getMetricDuration_def)

text \<open>
  Claim C8. \<open>calcExchangeMetrics\<close> yields a value for the name \<^verbatim>\<open>Exchange\<close> only
  (none for \<^verbatim>\<open>CometExchange\<close> or \<^verbatim>\<open>GpuColumnarExchange\<close>). For \<^verbatim>\<open>Exchange\<close> the write
  duration is the shuffle write time, the read duration is the sum of the fetch wait
  time, the remote requests duration and the remote merged requests duration, each 0
  when the metric is missing, and the duration is the sum of the two, for all metrics.
\<close>

theorem calcExchangeMetrics_only_Exchange:
  "(nm \<noteq> ''Exchange'' \<longrightarrow> calcExchangeMetrics D nm ms = None) \<and>
   calcExchangeMetrics D ''CometExchange'' ms = None \<and>
   calcExchangeMetrics D ''GpuColumnarExchange'' ms = None \<and>
   (\<exists>x. calcExchangeMetrics D ''Exchange'' ms = Some x \<and>
        writeDuration x = nullish (getMetricDuration D ''shuffle write time'' ms) 0 \<and>
        readDuration x =
          nullish (getMetricDuration D ''fetch wait time'' ms) 0 +
          nullish (getMetricDuration D ''remote reqs duration'' ms) 0 +
          nullish (getMetricDuration D ''remote merged reqs duration'' ms) 0 \<and>
        duration x = writeDuration x + readDuration x) \<and>
   (\<forall>n. find (\<lambda>m. mname m = n) ms = None \<longrightarrow> nullish (getMetricDuration D n ms) 0 = 0)"
proof (intro conjI allI impI)
  assume "nm \<noteq> ''Exchange''"
  then show "calcExchangeMetrics D nm ms = None"
    by (simp add: calcExchangeMetrics_def)
next
  show "calcExchangeMetrics D ''CometExchange'' ms = None"
    and "calcExchangeMetrics D ''GpuColumnarExchange'' ms = None"
    by (simp_all add: calcExchangeMetrics_def)
next
  let ?w = "nullish (getMetricDuration D ''shuffle write time'' ms) 0"
  let ?r = "nullish (getMetricDuration D ''fetch wait time'' ms) 0 +
            nullish (getMetricDuration D ''remote reqs duration'' ms) 0 +
            nullish (getMetricDuration D ''remote merged reqs duration'' ms) 0"
  have "calcExchangeMetrics D ''Exchange'' ms =
          Some \<lparr>writeDuration = ?w, readDuration = ?r, duration = ?w + ?r\<rparr>"
    by (simp add: calcExchangeMetrics_def Let_def)
  then show "\<exists>x. calcExchangeMetrics D ''Exchange'' ms = Some x \<and>
        writeDuration x = ?w \<and> readDuration x = ?r \<and>
        duration x = writeDuration x + readDuration x"
    by simp
next
  fix n
  assume "find (\<lambda>m. mname m = n) ms = None"
  then have "getMetricDuration D n ms = None" by (rule getMetricDuration_absent)
  then show "nullish (getMetricDuration D n ms) 0 = 0" by (simp add: nullish_def)
qed

theorem calcExchangeMetrics_only_Exchange_witness:
  "calcExchangeMetrics exDeps ''Exchange'' exchangeTimes
     = Some \<lparr>writeDuration = 5, readDuration = 9, duration = 14\<rparr> \<and>
   ''CometExchange'' \<noteq> ''Exchange'' \<and>
   calcExchangeMetrics exDeps ''CometExchange'' exchangeTimes = None \<and>
   find (\<lambda>m. mname m = ''remote merged reqs duration'') exchangeTimes = None \<and>
   nullish (getMetricDuration exDeps ''remote merged reqs duration'' exchangeTimes) 0 = 0"
proof -
  note inst = calcExchangeMetrics_only_Exchange [of "''CometExchange''" exDeps exchangeTimes]
  have a: "find (\<lambda>m. mname m = ''remote merged reqs duration'') exchangeTimes = None"
    by (simp add: exchangeTimes_def)
  have w: "getMetricDuration exDeps ''shuffle write time'' exchangeTimes = Some 5"
    by (simp add: getMetricDuration_def exchangeTimes_def exDeps_def exParseFloat_def digitVal_def)
  have f: "getMetricDuration exDeps ''fetch wait time'' exchangeTimes = Some 7"
    by (simp add: getMetricDuration_def exchangeTimes_def exDeps_def exParseFloat_def digitVal_def)
  have r: "getMetricDuration exDeps ''remote reqs duration'' exchangeTimes = Some 2"
    by (simp add: getMetricDuration_def exchangeTimes_def exDeps_def exParseFloat_def digitVal_def)
  from inst a have z: "nullish (getMetricDuration exDeps ''remote merged reqs duration'' exchangeTimes) 0 = 0"
    by blast
  from inst obtain x where x: "calcExchangeMetrics exDeps ''Exchange'' exchangeTimes = Some x"
    "writeDuration x = 5" "readDuration x = 9" "duration x = writeDuration x + readDuration x"
    unfolding z w f r by (auto simp: nullish_def)
  then have "x = \<lparr>writeDuration = 5, readDuration = 9, duration = 14\<rparr>" by (cases x) simp
  with x(1) inst a z show ?thesis by simp
qed
lemmas join_eval = joinInputRows_def joinNodes_def emptyJoinNodes_def joinGraph_def enriched_def
  rowsMetric_def inEdges_def hasNode_def

text \<open>
  Claim C6 as stated fails: a sort-merge join has two incoming edges whose upstream
  row counts resolve (100 and 200), but no row-count metric of its own; no metric is
  emitted.
\<close>

theorem addJoinMetrics_omitted_without_own_rows:
  "nodeName (enriched 4 ''SortMergeJoin'' ''join'' []) = ''SortMergeJoin'' \<and>
   inEdges joinGraph (nodeId (enriched 4 ''SortMergeJoin'' ''join'' [])) = Some [(1, 4), (3, 4)] \<and>
   joinInputRows exDeps joinGraph joinNodes (1, 4) = Some 100 \<and>
   joinInputRows exDeps joinGraph joinNodes (3, 4) = Some 200 \<and>
   addJoinMetrics exDeps (enriched 4 ''SortMergeJoin'' ''join'' []) [] joinGraph joinNodes = None"
  by (simp add: addJoinMetrics_def join_eval ex_eval)

text \<open>
  Claim C6, as amended. For a node named \<^verbatim>\<open>BroadcastHashJoin\<close>, \<^verbatim>\<open>SortMergeJoin\<close> or
  \<^verbatim>\<open>ShuffleHashJoin\<close> with exactly two incoming edges whose upstream row counts
  \<open>rows0\<close> and \<open>rows1\<close> resolve: without a row count of its own no metric is emitted;
  with output rows \<open>outputRows\<close> exactly one metric is emitted. It is
  \<^verbatim>\<open>join rows increase ratio\<close>, the ratio \<open>outputRows / max rows0 rows1\<close> with one
  decimal and the suffix \<^verbatim>\<open>X\<close>, when the maximum is not 0 and the ratio exceeds 1;
  otherwise it is \<^verbatim>\<open>join rows filtered\<close>, the percentage of \<open>outputRows\<close> in the
  maximum with two decimals and the suffix \<^verbatim>\<open>%\<close>. For a maximum of 0 the ratio is 0
  and not the infinite quotient, so the second branch is taken.
\<close>

theorem addJoinMetrics_ratio_or_filtered:
  assumes "nodeName node = ''BroadcastHashJoin'' \<or> nodeName node = ''SortMergeJoin''
             \<or> nodeName node = ''ShuffleHashJoin''"
      and "inEdges graph (nodeId node) = Some [e0, e1]"
      and "joinInputRows D graph allNodes e0 = Some rows0"
      and "joinInputRows D graph allNodes e1 = Some rows1"
  shows "(getRowsFromMetrics D (Some updatedMetrics) = None \<longrightarrow>
            addJoinMetrics D node updatedMetrics graph allNodes = None) \<and>
         (\<forall>outputRows. getRowsFromMetrics D (Some updatedMetrics) = Some outputRows \<longrightarrow>
            addJoinMetrics D node updatedMetrics graph allNodes =
              Some [if max rows0 rows1 \<noteq> 0 \<and> outputRows / max rows0 rows1 > 1
                    then \<lparr>mname = ''join rows increase ratio'',
                          mvalue = toFixed D (outputRows / max rows0 rows1) 1 @ ''X''\<rparr>
                    else \<lparr>mname = ''join rows filtered'',
                          mvalue = toFixed D (calculatePercentage D outputRows (max rows0 rows1)) 2
                                   @ ''%''\<rparr>] \<and>
            (max rows0 rows1 = 0 \<longrightarrow>
               addJoinMetrics D node updatedMetrics graph allNodes =
                 Some [\<lparr>mname = ''join rows filtered'',
                        mvalue = toFixed D (calculatePercentage D outputRows 0) 2 @ ''%''\<rparr>]))"
proof -
  let ?max = "max rows0 rows1"
  from assms(3,4) have rows:
    "filter (\<lambda>rows. rows \<noteq> None) (map (joinInputRows D graph allNodes) [e0, e1])
       = [Some rows0, Some rows1]"
    by simp
  have none: "getRowsFromMetrics D (Some updatedMetrics) = None \<longrightarrow>
            addJoinMetrics D node updatedMetrics graph allNodes = None"
    using assms(1,2) rows by (auto simp: addJoinMetrics_def)
  have some: "addJoinMetrics D node updatedMetrics graph allNodes =
              Some [if ?max \<noteq> 0 \<and> outputRows / ?max > 1
                    then \<lparr>mname = ''join rows increase ratio'',
                          mvalue = toFixed D (outputRows / ?max) 1 @ ''X''\<rparr>
                    else \<lparr>mname = ''join rows filtered'',
                          mvalue = toFixed D (calculatePercentage D outputRows ?max) 2
                                   @ ''%''\<rparr>] \<and>
            (?max = 0 \<longrightarrow>
               addJoinMetrics D node updatedMetrics graph allNodes =
                 Some [\<lparr>mname = ''join rows filtered'',
                        mvalue = toFixed D (calculatePercentage D outputRows 0) 2 @ ''%''\<rparr>])"
    if out: "getRowsFromMetrics D (Some updatedMetrics) = Some outputRows" for outputRows
  proof -
    let ?ratio = "if ?max \<noteq> 0 then jsDivide outputRows ?max else Finite 0"
    let ?increase = "\<lparr>mname = ''join rows increase ratio'',
                      mvalue = toFixed D (outputRows / ?max) 1 @ ''X''\<rparr>"
    let ?filtered = "\<lparr>mname = ''join rows filtered'',
                      mvalue = toFixed D (calculatePercentage D outputRows ?max) 2 @ ''%''\<rparr>"
    have step: "addJoinMetrics D node updatedMetrics graph allNodes =
                  (if exceeds ?ratio 1
                   then Some [\<lparr>mname = ''join rows increase ratio'',
                               mvalue = quotientToFixed D ?ratio 1 @ ''X''\<rparr>]
                   else Some [?filtered])"
      using assms(1,2) out rows by (auto simp: addJoinMetrics_def Let_def)
    have main: "addJoinMetrics D node updatedMetrics graph allNodes =
                  Some [if ?max \<noteq> 0 \<and> outputRows / ?max > 1 then ?increase else ?filtered]"
    proof (cases "?max = 0")
      case True
      then have "\<not> exceeds ?ratio 1" by simp
      with True show ?thesis unfolding step by simp
    next
      case False
      then have r: "?ratio = Finite (outputRows / ?max)" by (simp add: jsDivide_def)
      show ?thesis unfolding step r using False by (simp add: quotientToFixed_def)
    qed
    have "?max = 0 \<longrightarrow>
               addJoinMetrics D node updatedMetrics graph allNodes =
                 Some [\<lparr>mname = ''join rows filtered'',
                        mvalue = toFixed D (calculatePercentage D outputRows 0) 2 @ ''%''\<rparr>]"
      unfolding main by simp
    with main show ?thesis by blast
  qed
  from none some show ?thesis by blast
qed

theorem addJoinMetrics_ratio_or_filtered_witness:
  "inEdges joinGraph (nodeId (enriched 4 ''SortMergeJoin'' ''join'' [])) = Some [(1, 4), (3, 4)] \<and>
   joinInputRows exDeps joinGraph joinNodes (1, 4) = Some 100 \<and>
   joinInputRows exDeps joinGraph joinNodes (3, 4) = Some 200 \<and>
   addJoinMetrics exDeps (enriched 4 ''SortMergeJoin'' ''join'' []) (rowsMetric ''50'') joinGraph joinNodes
     = Some [\<lparr>mname = ''join rows filtered'', mvalue = ''25.00%''\<rparr>] \<and>
   addJoinMetrics exDeps (enriched 4 ''SortMergeJoin'' ''join'' []) (rowsMetric ''500'') joinGraph joinNodes
     = Some [\<lparr>mname = ''join rows increase ratio'', mvalue = ''2.5X''\<rparr>] \<and>
   addJoinMetrics exDeps (enriched 4 ''SortMergeJoin'' ''join'' []) [] joinGraph joinNodes = None \<and>
   joinInputRows exDeps joinGraph emptyJoinNodes (1, 4) = Some 0 \<and>
   joinInputRows exDeps joinGraph emptyJoinNodes (3, 4) = Some 0 \<and>
   addJoinMetrics exDeps (enriched 4 ''SortMergeJoin'' ''join'' []) (rowsMetric ''50'') joinGraph
       emptyJoinNodes
     = Some [\<lparr>mname = ''join rows filtered'', mvalue = ''0.00%''\<rparr>]"
proof -
  let ?j = "enriched 4 ''SortMergeJoin'' ''join'' []"
  have n: "nodeName ?j = ''BroadcastHashJoin'' \<or> nodeName ?j = ''SortMergeJoin''
             \<or> nodeName ?j = ''ShuffleHashJoin''"
    by (simp add: enriched_def)
  have i: "inEdges joinGraph (nodeId ?j) = Some [(1, 4), (3, 4)]"
    by (simp add: inEdges_def hasNode_def joinGraph_def enriched_def)
  have r0: "joinInputRows exDeps joinGraph joinNodes (1, 4) = Some 100"
    by (simp add: join_eval ex_eval)
  have r1: "joinInputRows exDeps joinGraph joinNodes (3, 4) = Some 200"
    by (simp add: join_eval ex_eval)
  have z0: "joinInputRows exDeps joinGraph emptyJoinNodes (1, 4) = Some 0"
    by (simp add: join_eval ex_eval)
  have z1: "joinInputRows exDeps joinGraph emptyJoinNodes (3, 4) = Some 0"
    by (simp add: join_eval ex_eval)
  have o0: "getRowsFromMetrics exDeps (Some []) = None"
    by (simp add: ex_eval)
  have o1: "getRowsFromMetrics exDeps (Some (rowsMetric ''50'')) = Some 50"
    by (simp add: rowsMetric_def ex_eval)
  have o2: "getRowsFromMetrics exDeps (Some (rowsMetric ''500'')) = Some 500"
    by (simp add: rowsMetric_def ex_eval)
  have f1: "toFixed exDeps (calculatePercentage exDeps 50 200) 2 = ''25.00''"
    by (simp add: ex_eval)
  have f2: "toFixed exDeps (500 / 200) 1 = ''2.5''"
    by (simp add: ex_eval)
  have f3: "toFixed exDeps (calculatePercentage exDeps 50 0) 2 = ''0.00''"
    by (simp add: ex_eval)
  note full = addJoinMetrics_ratio_or_filtered [OF n i r0 r1]
  note empty = addJoinMetrics_ratio_or_filtered [OF n i z0 z1]
  from full [of "rowsMetric ''50''"] o1 f1
  have a: "addJoinMetrics exDeps ?j (rowsMetric ''50'') joinGraph joinNodes
     = Some [\<lparr>mname = ''join rows filtered'', mvalue = ''25.00%''\<rparr>]" by simp
  from full [of "rowsMetric ''500''"] o2 f2
  have b: "addJoinMetrics exDeps ?j (rowsMetric ''500'') joinGraph joinNodes
     = Some [\<lparr>mname = ''join rows increase ratio'', mvalue = ''2.5X''\<rparr>]" by simp
  from full [of "[]"] o0
  have c: "addJoinMetrics exDeps ?j [] joinGraph joinNodes = None" by simp
  from empty [of "rowsMetric ''50''"] o1 f3
  have d: "addJoinMetrics exDeps ?j (rowsMetric ''50'') joinGraph emptyJoinNodes
     = Some [\<lparr>mname = ''join rows filtered'', mvalue = ''0.00%''\<rparr>]" by simp
  show ?thesis by (intro conjI) (fact i r0 r1 a b c z0 z1 d)+
qed







section \<open>Properties of the enrichment of one execution\<close>

lemma updateFirstWhere_split:
  "\<exists>x\<in>set xs. P x \<Longrightarrow>
     \<exists>pre n post. xs = pre @ n # post \<and> P n \<and> (\<forall>m\<in>set pre. \<not> P m) \<and>
        updateFirstWhere P f xs = pre @ f n # post"
proof (induction xs)
  case Nil
  then show ?case by simp
next
  case (Cons a xs)
  show ?case
  proof (cases "P a")
    case True
    then have "a # xs = [] @ a # xs \<and> P a \<and> (\<forall>m\<in>set []. \<not> P m) \<and>
        updateFirstWhere P f (a # xs) = [] @ f a # xs" by simp
    then show ?thesis by blast
  next
    case False
    with Cons.prems have "\<exists>x\<in>set xs. P x" by simp
    from Cons.IH [OF this] obtain pre n post where
      h: "xs = pre @ n # post" "P n" "\<forall>m\<in>set pre. \<not> P m"
         "updateFirstWhere P f xs = pre @ f n # post" by blast
    with False have "a # xs = (a # pre) @ n # post \<and> P n \<and> (\<forall>m\<in>set (a # pre). \<not> P m) \<and>
        updateFirstWhere P f (a # xs) = (a # pre) @ f n # post" by simp
    then show ?thesis by blast
  qed
qed

lemma updateLastWhere_split:
  assumes "\<exists>x\<in>set xs. P x"
  shows "\<exists>pre n post. xs = pre @ n # post \<and> P n \<and> (\<forall>m\<in>set post. \<not> P m) \<and>
        updateLastWhere P f xs = pre @ f n # post"
proof -
  from assms have "\<exists>x\<in>set (rev xs). P x" by simp
  from updateFirstWhere_split [OF this, of f] obtain pre n post where
    h: "rev xs = pre @ n # post" "P n" "\<forall>m\<in>set pre. \<not> P m"
       "updateFirstWhere P f (rev xs) = pre @ f n # post" by blast
  from h(1) have "xs = rev post @ n # rev pre" by (simp add: rev_swap)
  moreover from h(4) have "updateLastWhere P f xs = rev post @ f n # rev pre"
    by (simp add: updateLastWhere_def)
  moreover from h(3) have "\<forall>m\<in>set (rev pre). \<not> P m" by simp
  ultimately show ?thesis using h(2) by blast
qed

lemma forceOutput_forced:
  assumes "\<forall>n\<in>set G. ntype n \<noteq> ''output''"
      and "\<exists>n\<in>set G. nodeName n \<noteq> ''AdaptiveSparkPlan'' \<and> nodeName n \<noteq> ''ResultQueryStage''"
  shows "\<exists>pre n post. G = pre @ n # post \<and>
           (nodeName n \<noteq> ''AdaptiveSparkPlan'' \<and> nodeName n \<noteq> ''ResultQueryStage'') \<and>
           (\<forall>m\<in>set post. nodeName m = ''AdaptiveSparkPlan'' \<or> nodeName m = ''ResultQueryStage'') \<and>
           forceOutput G = Inr (pre @ n\<lparr>ntype := ''output''\<rparr> # post)"
proof -
  let ?keep = "\<lambda>node::'a EnrichedSqlNode. nodeName node \<noteq> ''AdaptiveSparkPlan'' \<and> nodeName node \<noteq> ''ResultQueryStage''"
  from assms(1) have no: "filter (\<lambda>node. ntype node = ''output'') G = []"
    by (simp add: filter_empty_conv)
  from assms(2) have ne: "filter ?keep G \<noteq> []"
    by (simp add: filter_empty_conv)
  have f: "forceOutput G = Inr (updateLastWhere ?keep (\<lambda>lastNode. lastNode\<lparr>ntype := ''output''\<rparr>) G)"
    using no ne by (simp add: forceOutput_def Let_def)
  from updateLastWhere_split [of G ?keep "\<lambda>lastNode. lastNode\<lparr>ntype := ''output''\<rparr>"] assms(2)
  obtain pre n post where h: "G = pre @ n # post" "?keep n" "\<forall>m\<in>set post. \<not> ?keep m"
    "updateLastWhere ?keep (\<lambda>lastNode. lastNode\<lparr>ntype := ''output''\<rparr>) G = pre @ n\<lparr>ntype := ''output''\<rparr> # post"
    by blast
  from h(3) have "\<forall>m\<in>set post. nodeName m = ''AdaptiveSparkPlan'' \<or> nodeName m = ''ResultQueryStage''"
    by blast
  with h(1,2) have "G = pre @ n # post \<and>
           (nodeName n \<noteq> ''AdaptiveSparkPlan'' \<and> nodeName n \<noteq> ''ResultQueryStage'') \<and>
           (\<forall>m\<in>set post. nodeName m = ''AdaptiveSparkPlan'' \<or> nodeName m = ''ResultQueryStage'') \<and>
           forceOutput G = Inr (pre @ n\<lparr>ntype := ''output''\<rparr> # post)"
    unfolding f h(4) by simp
  then show ?thesis by blast
qed

lemma forceOutput_throws:
  assumes "\<forall>n\<in>set G. ntype n \<noteq> ''output''"
      and "\<forall>n\<in>set G. nodeName n = ''AdaptiveSparkPlan'' \<or> nodeName n = ''ResultQueryStage''"
  shows "forceOutput G = Inl TypeError"
proof -
  from assms(1) have "filter (\<lambda>node. ntype node = ''output'') G = []"
    by (simp add: filter_empty_conv)
  moreover from assms(2) have "filter (\<lambda>node. nodeName node \<noteq> ''AdaptiveSparkPlan'' \<and> nodeName node \<noteq> ''ResultQueryStage'') G = []"
    by (auto simp: filter_empty_conv)
  ultimately show ?thesis by (simp add: forceOutput_def Let_def)
qed

lemma typeEnrichNode_fields:
  "nodeId (typeEnrichNode D sql plan commit n) = nodeId n"
  "nodeName (typeEnrichNode D sql plan commit n) = nodeName n"
  "ntype (typeEnrichNode D sql plan commit n) = calcNodeType D (nodeName n)"
  "isCodegenNode (typeEnrichNode D sql plan commit n) = includesStr (nodeName n) ''WholeStageCodegen''"
  by (simp_all add: typeEnrichNode_def Let_def)

lemma metricEnrichNode_fields:
  "nodeId (metricEnrichNode D sql G n) = nodeId n"
  "nodeName (metricEnrichNode D sql G n) = nodeName n"
  "ntype (metricEnrichNode D sql G n) = ntype n"
  by (simp_all add: metricEnrichNode_def Let_def)

lemma graph_nodes_filter:
  "filter (\<lambda>node. \<not> isCodegenNode node) (map (typeEnrichNode D sql plan commit) ns) =
     map (typeEnrichNode D sql plan commit)
       (filter (\<lambda>n. \<not> includesStr (nodeName n) ''WholeStageCodegen'') ns)"
  by (induction ns) (simp_all add: typeEnrichNode_fields)

lemma calculateSql_nodes:
  assumes "forceOutput (filter (\<lambda>node. \<not> isCodegenNode node)
             (map (typeEnrichNode D sql plan commit) (nodes sql))) = Inr G'"
  shows "\<exists>x. calculateSql D sql plan commit stages gen = Inr (x, gen + 2) \<and>
           nodes x = map (metricEnrichNode D sql G') G'"
  using assms by (simp add: calculateSql_def Let_def uuidv4_def)

lemma calculateSql_throws:
  assumes "forceOutput (filter (\<lambda>node. \<not> isCodegenNode node)
             (map (typeEnrichNode D sql plan commit) (nodes sql))) = Inl e"
  shows "calculateSql D sql plan commit stages gen = Inl e"
  using assms by (simp add: calculateSql_def Let_def)

lemma calculateSql_result:
  assumes "calculateSql D sql plan commit stages gen = Inr (x, gen')"
  shows "uniqueId x = gen" "metricUpdateId x = Suc gen" "gen' = gen + 2"
    "sqlId x = sqlId sql" "status x = status sql" "originalNumOfNodes x = length (nodes sql)"
    "sqlDuration x = sqlDuration sql"
  using assms by (auto simp: calculateSql_def Let_def uuidv4_def split: sum.splits)

text \<open>
  Claim C9, as amended. Let \<open>G\<close> be the nodes of an execution that are not code
  generation nodes. When no node of \<open>G\<close> is classified as output and \<open>G\<close> has a node
  that is not named \<^verbatim>\<open>AdaptiveSparkPlan\<close> or \<^verbatim>\<open>ResultQueryStage\<close>, then \<open>calculateSql\<close>
  returns, the returned nodes are those of \<open>G\<close> in order, the last node of \<open>G\<close> that
  is not so named carries the category output, every other node keeps the category
  that \<open>calcNodeType\<close> gives it, and so exactly one returned node is an output.
\<close>

theorem calculateSql_forces_last_node_to_output:
  assumes G: "G = filter (\<lambda>n. \<not> includesStr (nodeName n) ''WholeStageCodegen'') (nodes sql)"
      and no: "\<forall>n\<in>set G. calcNodeType D (nodeName n) \<noteq> ''output''"
      and ex: "\<exists>n\<in>set G. nodeName n \<noteq> ''AdaptiveSparkPlan'' \<and> nodeName n \<noteq> ''ResultQueryStage''"
  shows "\<exists>x pre n post.
           calculateSql D sql plan commit stages gen = Inr (x, gen + 2) \<and>
           G = pre @ n # post \<and>
           nodeName n \<noteq> ''AdaptiveSparkPlan'' \<and> nodeName n \<noteq> ''ResultQueryStage'' \<and>
           (\<forall>m\<in>set post. nodeName m = ''AdaptiveSparkPlan'' \<or> nodeName m = ''ResultQueryStage'') \<and>
           map nodeId (nodes x) = map nodeId G \<and>
           map nodeName (nodes x) = map nodeName G \<and>
           map ntype (nodes x) =
             map (\<lambda>m. calcNodeType D (nodeName m)) pre @ ''output''
               # map (\<lambda>m. calcNodeType D (nodeName m)) post \<and>
           length (filter (\<lambda>m. ntype m = ''output'') (nodes x)) = 1"
proof -
  let ?te = "typeEnrichNode D sql plan commit"
  let ?G = "map ?te G"
  have gn: "filter (\<lambda>node. \<not> isCodegenNode node) (map ?te (nodes sql)) = ?G"
    unfolding G by (rule graph_nodes_filter)
  from no have no': "\<forall>n\<in>set ?G. ntype n \<noteq> ''output''"
    by (simp add: typeEnrichNode_fields)
  from ex have ex': "\<exists>n\<in>set ?G. nodeName n \<noteq> ''AdaptiveSparkPlan'' \<and> nodeName n \<noteq> ''ResultQueryStage''"
    by (simp add: typeEnrichNode_fields)
  from forceOutput_forced [OF no' ex'] obtain pre' n' post' where
    h: "?G = pre' @ n' # post'"
       "nodeName n' \<noteq> ''AdaptiveSparkPlan'' \<and> nodeName n' \<noteq> ''ResultQueryStage''"
       "\<forall>m\<in>set post'. nodeName m = ''AdaptiveSparkPlan'' \<or> nodeName m = ''ResultQueryStage''"
       "forceOutput ?G = Inr (pre' @ n'\<lparr>ntype := ''output''\<rparr> # post')"
    by blast
  from h(1) obtain pre n post where
    s: "G = pre @ n # post" "pre' = map ?te pre" "n' = ?te n" "post' = map ?te post"
    by (auto simp: map_eq_append_conv map_eq_Cons_conv)
  let ?G' = "pre' @ n'\<lparr>ntype := ''output''\<rparr> # post'"
  from h(4) gn have "forceOutput (filter (\<lambda>node. \<not> isCodegenNode node) (map ?te (nodes sql))) = Inr ?G'"
    by simp
  from calculateSql_nodes [OF this, of stages gen] obtain x where
    x: "calculateSql D sql plan commit stages gen = Inr (x, gen + 2)"
       "nodes x = map (metricEnrichNode D sql ?G') ?G'"
    by blast
  have ids: "map nodeId (nodes x) = map nodeId G"
    unfolding x(2) s by (simp add: metricEnrichNode_fields typeEnrichNode_fields comp_def)
  have nms: "map nodeName (nodes x) = map nodeName G"
    unfolding x(2) s by (simp add: metricEnrichNode_fields typeEnrichNode_fields comp_def)
  have tys: "map ntype (nodes x) =
             map (\<lambda>m. calcNodeType D (nodeName m)) pre @ ''output''
               # map (\<lambda>m. calcNodeType D (nodeName m)) post"
    unfolding x(2) s by (simp add: metricEnrichNode_fields typeEnrichNode_fields comp_def)
  from no s(1) have npre: "\<forall>m\<in>set pre. calcNodeType D (nodeName m) \<noteq> ''output''"
    and npost: "\<forall>m\<in>set post. calcNodeType D (nodeName m) \<noteq> ''output''" by auto
  have "filter (\<lambda>t. t = ''output'') (map ntype (nodes x)) = [''output'']"
    unfolding tys using npre npost by (simp add: filter_empty_conv)
  then have "length (filter (\<lambda>t. t = ''output'') (map ntype (nodes x))) = 1" by simp
  then have one: "length (filter (\<lambda>m. ntype m = ''output'') (nodes x)) = 1"
    by (simp add: filter_map comp_def)
  from h(2) s(3) have nn: "nodeName n \<noteq> ''AdaptiveSparkPlan'' \<and> nodeName n \<noteq> ''ResultQueryStage''"
    by (simp add: typeEnrichNode_fields)
  from h(3) s(4) have pp: "\<forall>m\<in>set post. nodeName m = ''AdaptiveSparkPlan'' \<or> nodeName m = ''ResultQueryStage''"
    by (simp add: typeEnrichNode_fields)
  from x(1) s(1) nn pp ids nms tys one show ?thesis by blast
qed

lemmas sql_eval = chainSql_def wrapperSql_def rowsNode_def mkNode_def rowsMetric_def

text \<open>
  Claim C9 as stated fails for an execution without a candidate node: with no node at
  all, or with the wrapper \<^verbatim>\<open>AdaptiveSparkPlan\<close> as its only node, no node is assigned
  the output category; \<open>calculateSql\<close> throws a \<^verbatim>\<open>TypeError\<close>.
\<close>

theorem calculateSql_throws_without_candidate:
  "calculateSql exDeps (wrapperSql []) None None () 0 = Inl TypeError \<and>
   calculateSql exDeps (wrapperSql [mkNode 0 ''AdaptiveSparkPlan'']) None None () 0 = Inl TypeError"
proof -
  have "forceOutput (filter (\<lambda>node. \<not> isCodegenNode node)
          (map (typeEnrichNode exDeps (wrapperSql ns) None None) ns)) = Inl TypeError"
    if "ns = [] \<or> ns = [mkNode 0 ''AdaptiveSparkPlan'']" for ns
    using that
    by (intro forceOutput_throws)
       (auto simp: typeEnrichNode_fields mkNode_def exDeps_def exCalcNodeType_def)
  from this [of "[]"] this [of "[mkNode 0 ''AdaptiveSparkPlan'']"]
  show ?thesis
    using calculateSql_throws [of exDeps "wrapperSql []" None None TypeError "()" 0]
      calculateSql_throws [of exDeps "wrapperSql [mkNode 0 ''AdaptiveSparkPlan'']" None None TypeError "()" 0]
    by (simp add: wrapperSql_def)
qed

theorem calculateSql_forces_last_node_to_output_witness:
  "filter (\<lambda>n. \<not> includesStr (nodeName n) ''WholeStageCodegen'') (nodes (chainSql Running))
     = nodes (chainSql Running) \<and>
   map (\<lambda>n. calcNodeType exDeps (nodeName n)) (nodes (chainSql Running))
     = [''input'', ''transformation'', ''transformation'', ''transformation''] \<and>
   (\<exists>x. calculateSql exDeps (chainSql Running) None None () 0 = Inr (x, 2) \<and>
        map nodeId (nodes x) = [0, 1, 2, 3] \<and>
        map ntype (nodes x) = [''input'', ''transformation'', ''transformation'', ''output''] \<and>
        length (filter (\<lambda>m. ntype m = ''output'') (nodes x)) = 1)"
proof -
  let ?ns = "nodes (chainSql Running)"
  let ?f = "\<lambda>m. calcNodeType exDeps (nodeName m)"
  have g: "?ns = filter (\<lambda>n. \<not> includesStr (nodeName n) ''WholeStageCodegen'') ?ns"
    by (simp add: sql_eval)
  have t: "map ?f ?ns = [''input'', ''transformation'', ''transformation'', ''transformation'']"
    by (simp add: sql_eval exDeps_def exCalcNodeType_def)
  have no: "\<forall>n\<in>set ?ns. calcNodeType exDeps (nodeName n) \<noteq> ''output''"
    by (simp add: sql_eval exDeps_def exCalcNodeType_def)
  have all: "\<forall>n\<in>set ?ns. nodeName n \<noteq> ''AdaptiveSparkPlan'' \<and> nodeName n \<noteq> ''ResultQueryStage''"
    by (simp add: sql_eval)
  then have ex: "\<exists>n\<in>set ?ns. nodeName n \<noteq> ''AdaptiveSparkPlan'' \<and> nodeName n \<noteq> ''ResultQueryStage''"
    by (simp add: sql_eval)
  from calculateSql_forces_last_node_to_output [OF g no ex, of None None "()" 0] obtain x pre n post where
    h: "calculateSql exDeps (chainSql Running) None None () 0 = Inr (x, 0 + 2)"
       "?ns = pre @ n # post"
       "\<forall>m\<in>set post. nodeName m = ''AdaptiveSparkPlan'' \<or> nodeName m = ''ResultQueryStage''"
       "map nodeId (nodes x) = map nodeId ?ns"
       "map ntype (nodes x) = map ?f pre @ ''output'' # map ?f post"
       "length (filter (\<lambda>m. ntype m = ''output'') (nodes x)) = 1"
    by blast
  from h(2) have "set post \<subseteq> set ?ns" by auto
  with all h(3) have "post = []" by (cases post) auto
  with h(2) have sn: "?ns = pre @ [n]" by simp
  then have "map ?f ?ns = map ?f pre @ [?f n]" by simp
  with t have "map ?f pre @ [?f n] = [''input'', ''transformation'', ''transformation''] @ [''transformation'']"
    by simp
  then have "map ?f pre = [''input'', ''transformation'', ''transformation'']"
    by (simp only: append1_eq_conv)
  with h(5) \<open>post = []\<close> have ty: "map ntype (nodes x) = [''input'', ''transformation'', ''transformation'', ''output'']"
    by simp
  have ids: "map nodeId ?ns = [0, 1, 2, 3]" by (simp add: sql_eval)
  from h(1) h(4) ids ty h(6) g t show ?thesis by auto
qed

section \<open>Properties of the store of executions\<close>

lemma storeEntry_mono:
  assumes "storeEntry D st batch plans ice stages ident g = Inr (x, g2)"
  shows "g \<le> g2"
proof -
  have c: "calculateSql D new p c stages g = Inr (x, g2) \<Longrightarrow> g \<le> g2" for new p c
    by (drule calculateSql_result(3)) simp
  from assms show ?thesis
    by (auto simp: storeEntry_def Let_def split: option.splits if_splits dest: c)
qed

lemma storeLoop_nth:
  "storeLoop D st batch plans ice stages ids acc gen = Inr (res, gen') \<Longrightarrow>
     length res = length acc + length ids \<and> take (length acc) res = acc \<and>
     (\<forall>i<length ids. \<exists>g g2. gen \<le> g \<and>
        storeEntry D st batch plans ice stages (ids ! i) g = Inr (res ! (length acc + i), g2))"
proof (induction ids arbitrary: acc gen)
  case Nil
  then show ?case by simp
next
  case (Cons ident ids)
  from Cons.prems obtain x g1 where
    e: "storeEntry D st batch plans ice stages ident gen = Inr (x, g1)"
    and l: "storeLoop D st batch plans ice stages ids (acc @ [x]) g1 = Inr (res, gen')"
    by (auto split: sum.splits)
  from Cons.IH [OF l] have
    len: "length res = length (acc @ [x]) + length ids"
    and tk: "take (length (acc @ [x])) res = acc @ [x]"
    and nth: "\<forall>i<length ids. \<exists>g g2. g1 \<le> g \<and>
        storeEntry D st batch plans ice stages (ids ! i) g = Inr (res ! (length (acc @ [x]) + i), g2)"
    by blast+
  from e have m: "gen \<le> g1" by (rule storeEntry_mono)
  have "take (length acc) res = take (length acc) (take (length (acc @ [x])) res)"
    by simp
  also have "\<dots> = take (length acc) (acc @ [x])" by (simp only: tk)
  finally have a: "take (length acc) res = acc" by simp
  have "res ! length acc = take (length (acc @ [x])) res ! length acc" by simp
  also have "\<dots> = (acc @ [x]) ! length acc" by (simp only: tk)
  finally have x: "res ! length acc = x" by simp
  have "\<exists>g g2. gen \<le> g \<and>
        storeEntry D st batch plans ice stages ((ident # ids) ! i) g = Inr (res ! (length acc + i), g2)"
    if "i < length (ident # ids)" for i
  proof (cases i)
    case 0
    with e x show ?thesis by auto
  next
    case (Suc j)
    with that have "j < length ids" by simp
    with nth obtain g g2 where "g1 \<le> g"
      "storeEntry D st batch plans ice stages (ids ! j) g = Inr (res ! (length (acc @ [x]) + j), g2)"
      by blast
    with m Suc show ?thesis by (intro exI [of _ g] exI [of _ g2]) simp
  qed
  with len a show ?case by simp
qed

lemma calculateSqlStore_entries:
  assumes "calculateSqlStore D (Some store) batch plans ice stages gen = Inr (store', gen')"
      and "kept = filter (\<lambda>s. idLess (parseInt D (sqlId s))
                 (mathMin (map (\<lambda>s. parseInt D (sqlId s)) batch))) (sqls store)"
  shows "length (sqls store') = length kept + length batch"
    and "take (length kept) (sqls store') = kept"
    and "i < length batch \<Longrightarrow> \<exists>g g2. gen \<le> g \<and>
           storeEntry D store batch plans ice stages (parseInt D (sqlId (batch ! i))) g
             = Inr (sqls store' ! (length kept + i), g2)"
proof -
  let ?ids = "map (\<lambda>s. parseInt D (sqlId s)) batch"
  from assms have l: "storeLoop D store batch plans ice stages ?ids kept gen = Inr (sqls store', gen')"
    by (auto simp: calculateSqlStore_def Let_def split: sum.splits)
  from storeLoop_nth [OF l] show "length (sqls store') = length kept + length batch"
    and "take (length kept) (sqls store') = kept" by simp_all
  assume "i < length batch"
  with storeLoop_nth [OF l] show "\<exists>g g2. gen \<le> g \<and>
           storeEntry D store batch plans ice stages (parseInt D (sqlId (batch ! i))) g
             = Inr (sqls store' ! (length kept + i), g2)"
    by simp
qed

lemma materialize:
  "calculateSql exDeps (snapshot st d scanOnly) None None () g = Inr (materialized st d g, g + 2)"
  by (simp add: calculateSql_def typeEnrichNode_def metricEnrichNode_def forceOutput_def
      updateLastWhere_def updateNodeMetrics_def addFilterRatioMetric_def
      addCrossJoinFilterRatioMetric_def addJoinMetrics_def calcExchangeMetrics_def
      calcBroadcastExchangeDuration_def calcCodegenDuration_def cleanUpDAG_def
      contractedGraph_def notVisibleNodes_def graph_eval uuidv4_def
      snapshot_def scanOnly_def rowsNode_def rowsMetric_def materialized_def enriched_def
      exDeps_def exCalcNodeType_def)

lemmas calc_eval = calculateSql_def typeEnrichNode_def metricEnrichNode_def forceOutput_def
  updateLastWhere_def updateNodeMetrics_def addFilterRatioMetric_def
  addCrossJoinFilterRatioMetric_def addJoinMetrics_def calcExchangeMetrics_def
  calcBroadcastExchangeDuration_def calcCodegenDuration_def cleanUpDAG_def
  contractedGraph_def notVisibleNodes_def graph_eval uuidv4_def
  snapshot_def scanOnly_def scanAndFilter_def rowsNode_def rowsMetric_def enriched_def
  exDeps_def exCalcNodeType_def exFindLast_def

lemmas store_eval = calculateSqlStore_def storeEntry_def mathMin_def noIceberg_def
  exParseInt_def digitVal_def

lemma snapshot_fields:
  "sqlId (snapshot st d ns) = ''7''" "status (snapshot st d ns) = st" "nodes (snapshot st d ns) = ns"
  by (simp_all add: snapshot_def)

lemma materialized_fields:
  "sqlId (materialized st d g) = ''7''" "originalNumOfNodes (materialized st d g) = 1"
  "uniqueId (materialized st d g) = g" "status (materialized st d g) = st"
  by (simp_all add: materialized_def)

lemma parse7: "parseInt exDeps ''7'' = Num 7" "parseInt exDeps ''3'' = Num 3"
  by (simp_all add: exDeps_def exParseInt_def digitVal_def)

lemma rematerialize:
  "calculateSql exDeps (snapshot Running 20 scanAndFilter) None None () g
     = Inr (rematerialized g, g + 2)"
  by (simp add: calc_eval rematerialized_def)

lemma first_store:
  "calculateSqlStore exDeps None [snapshot st d scanOnly] [] noIceberg () 0
     = Inr (\<lparr>sqls = [materialized st d 0]\<rparr>, 2)"
  by (simp add: calculateSqlStore_def noIceberg_def materialize)

lemma storeEntry_running_same:
  assumes "find (\<lambda>s. idEq (parseInt D (sqlId s)) ident) batch = Some new"
      and "find (\<lambda>s. idEq (parseInt D (sqlId s)) ident) (sqls store) = Some cur"
      and "status new = Running"
      and "originalNumOfNodes cur = length (nodes new)"
  shows "storeEntry D store batch plans ice stages ident g =
           Inr (cur\<lparr>sqlDuration := sqlDuration new, failedJobIds := failedJobIds new,
                     runningJobIds := runningJobIds new, successJobIds := successJobIds new\<rparr>, g)"
  using assms by (simp add: storeEntry_def Let_def)

lemma storeEntry_recompute:
  assumes "find (\<lambda>s. idEq (parseInt D (sqlId s)) ident) batch = Some new"
      and "find (\<lambda>s. idEq (parseInt D (sqlId s)) ident) (sqls store) = Some cur"
      and "status new = Completed \<or> status new = Failed
             \<or> originalNumOfNodes cur \<noteq> length (nodes new)"
  shows "storeEntry D store batch plans ice stages ident g =
           calculateSql D new (find (\<lambda>p. idEq (Num (executionId p)) ident) plans)
             (find (\<lambda>c. idEq (Num (commitExecutionId c)) ident) (commitsInfo ice)) stages g"
  using assms by (auto simp: storeEntry_def Let_def)

text \<open>
  Claim C3. When \<open>calculateSqlStore\<close> returns and the batch entry found for the
  \<open>i\<close>-th id has status Running and as many nodes as the stored execution of that id
  recorded (\<open>originalNumOfNodes\<close>), then the execution returned for that id is the
  stored one with \<open>duration\<close>, \<open>failedJobIds\<close>, \<open>runningJobIds\<close> and \<open>successJobIds\<close>
  taken from the batch entry: nodes with their parsed plans and categories, code
  generation nodes, filter tiers, edges and both identities are those stored. The
  status of the stored execution is not looked at. The loop body returns this entry
  for every state of the token source and leaves that state unchanged.
\<close>

theorem calculateSqlStore_running_same_count_frame:
  assumes ret: "calculateSqlStore D (Some store) batch plans ice stages gen = Inr (store', gen')"
      and i: "i < length batch"
      and new: "find (\<lambda>s. idEq (parseInt D (sqlId s)) (parseInt D (sqlId (batch ! i)))) batch
                  = Some new"
      and cur: "find (\<lambda>s. idEq (parseInt D (sqlId s)) (parseInt D (sqlId (batch ! i))))
                  (sqls store) = Some cur"
      and st: "status new = Running"
      and cnt: "originalNumOfNodes cur = length (nodes new)"
      and k: "k = length (filter (\<lambda>s. idLess (parseInt D (sqlId s))
                         (mathMin (map (\<lambda>s. parseInt D (sqlId s)) batch))) (sqls store))"
  shows "sqls store' ! (k + i) =
           cur\<lparr>sqlDuration := sqlDuration new, failedJobIds := failedJobIds new,
                runningJobIds := runningJobIds new, successJobIds := successJobIds new\<rparr> \<and>
         nodes (sqls store' ! (k + i)) = nodes cur \<and>
         codegenNodes (sqls store' ! (k + i)) = codegenNodes cur \<and>
         filters (sqls store' ! (k + i)) = filters cur \<and>
         edges (sqls store' ! (k + i)) = edges cur \<and>
         uniqueId (sqls store' ! (k + i)) = uniqueId cur \<and>
         metricUpdateId (sqls store' ! (k + i)) = metricUpdateId cur \<and>
         sqlId (sqls store' ! (k + i)) = sqlId cur \<and>
         status (sqls store' ! (k + i)) = status cur \<and>
         originalNumOfNodes (sqls store' ! (k + i)) = originalNumOfNodes cur \<and>
         (\<forall>g. storeEntry D store batch plans ice stages (parseInt D (sqlId (batch ! i))) g =
            Inr (cur\<lparr>sqlDuration := sqlDuration new, failedJobIds := failedJobIds new,
                      runningJobIds := runningJobIds new, successJobIds := successJobIds new\<rparr>, g))"
proof -
  let ?r = "cur\<lparr>sqlDuration := sqlDuration new, failedJobIds := failedJobIds new,
                runningJobIds := runningJobIds new, successJobIds := successJobIds new\<rparr>"
  have e: "storeEntry D store batch plans ice stages (parseInt D (sqlId (batch ! i))) g = Inr (?r, g)"
    for g by (rule storeEntry_running_same [OF new cur st cnt])
  from calculateSqlStore_entries(3) [OF ret refl i] obtain g g2 where
    "storeEntry D store batch plans ice stages (parseInt D (sqlId (batch ! i))) g
       = Inr (sqls store' ! (k + i), g2)"
    unfolding k by blast
  with e [of g] have r: "sqls store' ! (k + i) = ?r" by simp
  show ?thesis unfolding r using e by simp
qed

theorem calculateSqlStore_running_same_count_frame_witness:
  "calculateSqlStore exDeps (Some \<lparr>sqls = [materialized Running 10 0]\<rparr>) [progressed] []
       noIceberg () 2
     = Inr (\<lparr>sqls = [(materialized Running 10 0)
               \<lparr>sqlDuration := 25, failedJobIds := [], runningJobIds := [],
                successJobIds := [1]\<rparr>]\<rparr>, 2) \<and>
   status progressed = Running \<and>
   originalNumOfNodes (materialized Running 10 0) = length (nodes progressed) \<and>
   nodes ((materialized Running 10 0)
            \<lparr>sqlDuration := 25, failedJobIds := [], runningJobIds := [], successJobIds := [1]\<rparr>)
     = nodes (materialized Running 10 0)"
proof -
  let ?store = "\<lparr>sqls = [materialized Running 10 0]\<rparr>"
  let ?r = "(materialized Running 10 0)
            \<lparr>sqlDuration := 25, failedJobIds := [], runningJobIds := [], successJobIds := [1]\<rparr>"
  have ret: "calculateSqlStore exDeps (Some ?store) [progressed] [] noIceberg () 2
               = Inr (\<lparr>sqls = [?r]\<rparr>, 2)"
    by (simp add: store_eval progressed_def snapshot_def scanOnly_def materialized_def exDeps_def)
  have i: "(0::nat) < length [progressed]" by simp
  have new: "find (\<lambda>s. idEq (parseInt exDeps (sqlId s)) (parseInt exDeps (sqlId ([progressed] ! 0))))
               [progressed] = Some progressed"
    by (simp add: store_eval progressed_def snapshot_def exDeps_def)
  have cur: "find (\<lambda>s. idEq (parseInt exDeps (sqlId s)) (parseInt exDeps (sqlId ([progressed] ! 0))))
               (sqls ?store) = Some (materialized Running 10 0)"
    by (simp add: store_eval progressed_def snapshot_def materialized_def exDeps_def)
  have st: "status progressed = Running" by (simp add: progressed_def snapshot_def)
  have cnt: "originalNumOfNodes (materialized Running 10 0) = length (nodes progressed)"
    by (simp add: progressed_def snapshot_def scanOnly_def materialized_def)
  from calculateSqlStore_running_same_count_frame [OF ret i new cur st cnt refl]
  have "nodes (sqls \<lparr>sqls = [?r]\<rparr> ! (length (filter (\<lambda>s. idLess (parseInt exDeps (sqlId s))
                         (mathMin (map (\<lambda>s. parseInt exDeps (sqlId s)) [progressed]))) (sqls ?store)) + 0))
          = nodes (materialized Running 10 0)"
    by blast
  moreover have "filter (\<lambda>s. idLess (parseInt exDeps (sqlId s))
                         (mathMin (map (\<lambda>s. parseInt exDeps (sqlId s)) [progressed]))) (sqls ?store) = []"
    by (simp add: store_eval progressed_def snapshot_def materialized_def exDeps_def)
  ultimately have "nodes ?r = nodes (materialized Running 10 0)" by simp
  with ret st cnt show ?thesis by simp
qed

text \<open>
  Claim C4, as amended. When \<open>calculateSqlStore\<close> returns and the batch entry found
  for the \<open>i\<close>-th id has status Running and a node count other than the one the stored
  execution recorded, then the execution returned for that id is the result of
  \<open>calculateSql\<close> on the batch entry: it keeps the id and the status of the entry, and
  its \<open>uniqueId\<close> and \<open>metricUpdateId\<close> are tokens drawn from the source during this
  call; the \<open>uniqueId\<close> differs from the stored one whenever the stored one was drawn
  before the call.
\<close>

theorem calculateSqlStore_running_new_count_fresh_identity:
  assumes ret: "calculateSqlStore D (Some store) batch plans ice stages gen = Inr (store', gen')"
      and i: "i < length batch"
      and new: "find (\<lambda>s. idEq (parseInt D (sqlId s)) (parseInt D (sqlId (batch ! i)))) batch
                  = Some new"
      and cur: "find (\<lambda>s. idEq (parseInt D (sqlId s)) (parseInt D (sqlId (batch ! i))))
                  (sqls store) = Some cur"
      and st: "status new = Running"
      and cnt: "originalNumOfNodes cur \<noteq> length (nodes new)"
      and k: "k = length (filter (\<lambda>s. idLess (parseInt D (sqlId s))
                         (mathMin (map (\<lambda>s. parseInt D (sqlId s)) batch))) (sqls store))"
  shows "\<exists>g. gen \<le> g \<and>
           calculateSql D new
             (find (\<lambda>p. idEq (Num (executionId p)) (parseInt D (sqlId (batch ! i)))) plans)
             (find (\<lambda>c. idEq (Num (commitExecutionId c)) (parseInt D (sqlId (batch ! i))))
                (commitsInfo ice))
             stages g = Inr (sqls store' ! (k + i), g + 2) \<and>
           uniqueId (sqls store' ! (k + i)) = g \<and>
           metricUpdateId (sqls store' ! (k + i)) = Suc g \<and>
           (uniqueId cur < gen \<longrightarrow> uniqueId (sqls store' ! (k + i)) \<noteq> uniqueId cur) \<and>
           sqlId (sqls store' ! (k + i)) = sqlId new \<and>
           status (sqls store' ! (k + i)) = Running \<and>
           originalNumOfNodes (sqls store' ! (k + i)) = length (nodes new)"
proof -
  let ?ident = "parseInt D (sqlId (batch ! i))"
  from calculateSqlStore_entries(3) [OF ret refl i] obtain g g2 where
    g: "gen \<le> g" and
    e: "storeEntry D store batch plans ice stages ?ident g = Inr (sqls store' ! (k + i), g2)"
    unfolding k by blast
  from cnt have "status new = Completed \<or> status new = Failed
             \<or> originalNumOfNodes cur \<noteq> length (nodes new)" by simp
  from storeEntry_recompute [OF new cur this, of plans ice stages g] e
  have c: "calculateSql D new (find (\<lambda>p. idEq (Num (executionId p)) ?ident) plans)
             (find (\<lambda>c. idEq (Num (commitExecutionId c)) ?ident) (commitsInfo ice)) stages g
           = Inr (sqls store' ! (k + i), g2)" by simp
  note r = calculateSql_result [OF c]
  from r(3) c have c': "calculateSql D new (find (\<lambda>p. idEq (Num (executionId p)) ?ident) plans)
             (find (\<lambda>c. idEq (Num (commitExecutionId c)) ?ident) (commitsInfo ice)) stages g
           = Inr (sqls store' ! (k + i), g + 2)" by simp
  from g r(1) have "uniqueId cur < gen \<longrightarrow> uniqueId (sqls store' ! (k + i)) \<noteq> uniqueId cur"
    by simp
  with g c' r(1,2,4,5,6) st show ?thesis by (intro exI [of _ g]) simp
qed

lemma regrow_store:
  "calculateSqlStore exDeps (Some \<lparr>sqls = [materialized Running 10 0]\<rparr>)
       [snapshot Running 20 scanAndFilter] [] noIceberg () 2
     = Inr (\<lparr>sqls = [rematerialized 2]\<rparr>, 4)"
proof -
  have n: "length scanAndFilter = 2" by (simp add: scanAndFilter_def)
  show ?thesis
    by (simp add: calculateSqlStore_def storeEntry_def mathMin_def noIceberg_def Let_def
        snapshot_fields materialized_fields parse7 n rematerialize)
qed

text \<open>
  Claim C4 as stated fails: an execution is materialized first with one node and the
  identity 0; the next snapshot is still running and has two nodes; the execution
  returned for it has the identity 2.
\<close>

theorem calculateSqlStore_identity_not_retained:
  "calculateSqlStore exDeps None [snapshot Running 10 scanOnly] [] noIceberg () 0
     = Inr (\<lparr>sqls = [materialized Running 10 0]\<rparr>, 2) \<and>
   uniqueId (materialized Running 10 0) = 0 \<and>
   calculateSqlStore exDeps (Some \<lparr>sqls = [materialized Running 10 0]\<rparr>)
       [snapshot Running 20 scanAndFilter] [] noIceberg () 2
     = Inr (\<lparr>sqls = [rematerialized 2]\<rparr>, 4) \<and>
   sqlId (rematerialized 2) = sqlId (materialized Running 10 0) \<and>
   uniqueId (rematerialized 2) = 2"
  by (simp add: first_store regrow_store materialized_fields rematerialized_def)

theorem calculateSqlStore_running_new_count_fresh_identity_witness:
  "calculateSqlStore exDeps (Some \<lparr>sqls = [materialized Running 10 0]\<rparr>)
       [snapshot Running 20 scanAndFilter] [] noIceberg () 2
     = Inr (\<lparr>sqls = [rematerialized 2]\<rparr>, 4) \<and>
   status (snapshot Running 20 scanAndFilter) = Running \<and>
   originalNumOfNodes (materialized Running 10 0) \<noteq> length (nodes (snapshot Running 20 scanAndFilter)) \<and>
   uniqueId (materialized Running 10 0) < 2 \<and>
   uniqueId (rematerialized 2) \<noteq> uniqueId (materialized Running 10 0)"
proof -
  let ?store = "\<lparr>sqls = [materialized Running 10 0]\<rparr>"
  let ?new = "snapshot Running 20 scanAndFilter"
  have i: "(0::nat) < length [?new]" by simp
  have new: "find (\<lambda>s. idEq (parseInt exDeps (sqlId s)) (parseInt exDeps (sqlId ([?new] ! 0))))
               [?new] = Some ?new"
    by (simp add: snapshot_fields parse7)
  have cur: "find (\<lambda>s. idEq (parseInt exDeps (sqlId s)) (parseInt exDeps (sqlId ([?new] ! 0))))
               (sqls ?store) = Some (materialized Running 10 0)"
    by (simp add: snapshot_fields materialized_fields parse7)
  have st: "status ?new = Running" by (simp add: snapshot_fields)
  have cnt: "originalNumOfNodes (materialized Running 10 0) \<noteq> length (nodes ?new)"
    by (simp add: snapshot_fields materialized_fields scanAndFilter_def)
  have kept: "filter (\<lambda>s. idLess (parseInt exDeps (sqlId s))
                 (mathMin (map (\<lambda>s. parseInt exDeps (sqlId s)) [?new]))) (sqls ?store) = []"
    by (simp add: snapshot_fields materialized_fields parse7 mathMin_def)
  have lt: "uniqueId (materialized Running 10 0) < 2" by (simp add: materialized_fields)
  from calculateSqlStore_running_new_count_fresh_identity [OF regrow_store i new cur st cnt refl] lt
  have "uniqueId (sqls \<lparr>sqls = [rematerialized 2]\<rparr> ! (length (filter (\<lambda>s. idLess (parseInt exDeps (sqlId s))
                 (mathMin (map (\<lambda>s. parseInt exDeps (sqlId s)) [?new]))) (sqls ?store)) + 0))
          \<noteq> uniqueId (materialized Running 10 0)"
    by blast
  then have "uniqueId (rematerialized 2) \<noteq> uniqueId (materialized Running 10 0)"
    unfolding kept by simp
  with regrow_store st cnt lt show ?thesis by blast
qed

text \<open>
  Claim C2, as amended. When \<open>calculateSqlStore\<close> returns, the stored executions
  whose id is below the least id of the batch come first in the result, unchanged and
  in their order, followed by one execution per batch entry. A stored execution whose
  id is in the batch is not protected by its status: when the batch entry found for
  its id is Completed or Failed, the execution returned is the result of
  \<open>calculateSql\<close> on that entry, with a \<open>uniqueId\<close> drawn from the token source
  during this call.
\<close>

theorem calculateSqlStore_keeps_older_recomputes_batch:
  assumes ret: "calculateSqlStore D (Some store) batch plans ice stages gen = Inr (store', gen')"
      and k: "k = length (filter (\<lambda>s. idLess (parseInt D (sqlId s))
                         (mathMin (map (\<lambda>s. parseInt D (sqlId s)) batch))) (sqls store))"
  shows "take k (sqls store') =
           filter (\<lambda>s. idLess (parseInt D (sqlId s))
                    (mathMin (map (\<lambda>s. parseInt D (sqlId s)) batch))) (sqls store) \<and>
         length (sqls store') = k + length batch \<and>
         (\<forall>i new cur.
            i < length batch \<and>
            find (\<lambda>s. idEq (parseInt D (sqlId s)) (parseInt D (sqlId (batch ! i)))) batch = Some new \<and>
            find (\<lambda>s. idEq (parseInt D (sqlId s)) (parseInt D (sqlId (batch ! i)))) (sqls store)
              = Some cur \<and>
            (status new = Completed \<or> status new = Failed) \<longrightarrow>
            (\<exists>g. gen \<le> g \<and>
               calculateSql D new
                 (find (\<lambda>p. idEq (Num (executionId p)) (parseInt D (sqlId (batch ! i)))) plans)
                 (find (\<lambda>c. idEq (Num (commitExecutionId c)) (parseInt D (sqlId (batch ! i))))
                    (commitsInfo ice))
                 stages g = Inr (sqls store' ! (k + i), g + 2) \<and>
               uniqueId (sqls store' ! (k + i)) = g \<and>
               (uniqueId cur < gen \<longrightarrow> uniqueId (sqls store' ! (k + i)) \<noteq> uniqueId cur)))"
proof (intro conjI allI impI)
  show "take k (sqls store') =
           filter (\<lambda>s. idLess (parseInt D (sqlId s))
                    (mathMin (map (\<lambda>s. parseInt D (sqlId s)) batch))) (sqls store)"
    unfolding k by (rule calculateSqlStore_entries(2) [OF ret refl])
  show "length (sqls store') = k + length batch"
    unfolding k by (rule calculateSqlStore_entries(1) [OF ret refl])
next
  fix i new cur
  let ?ident = "parseInt D (sqlId (batch ! i))"
  assume a: "i < length batch \<and>
            find (\<lambda>s. idEq (parseInt D (sqlId s)) ?ident) batch = Some new \<and>
            find (\<lambda>s. idEq (parseInt D (sqlId s)) ?ident) (sqls store) = Some cur \<and>
            (status new = Completed \<or> status new = Failed)"
  then have i: "i < length batch"
    and new: "find (\<lambda>s. idEq (parseInt D (sqlId s)) ?ident) batch = Some new"
    and cur: "find (\<lambda>s. idEq (parseInt D (sqlId s)) ?ident) (sqls store) = Some cur"
    and st: "status new = Completed \<or> status new = Failed \<or> originalNumOfNodes cur \<noteq> length (nodes new)"
    by blast+
  from calculateSqlStore_entries(3) [OF ret refl i] obtain g g2 where
    g: "gen \<le> g" and
    e: "storeEntry D store batch plans ice stages ?ident g = Inr (sqls store' ! (k + i), g2)"
    unfolding k by blast
  from storeEntry_recompute [OF new cur st, of plans ice stages g] e
  have c: "calculateSql D new (find (\<lambda>p. idEq (Num (executionId p)) ?ident) plans)
             (find (\<lambda>c. idEq (Num (commitExecutionId c)) ?ident) (commitsInfo ice)) stages g
           = Inr (sqls store' ! (k + i), g2)" by simp
  note r = calculateSql_result [OF c]
  from r(3) c have c': "calculateSql D new (find (\<lambda>p. idEq (Num (executionId p)) ?ident) plans)
             (find (\<lambda>c. idEq (Num (commitExecutionId c)) ?ident) (commitsInfo ice)) stages g
           = Inr (sqls store' ! (k + i), g + 2)" by simp
  from g r(1) have "uniqueId cur < gen \<longrightarrow> uniqueId (sqls store' ! (k + i)) \<noteq> uniqueId cur"
    by simp
  with g c' r(1) show "\<exists>g. gen \<le> g \<and>
               calculateSql D new
                 (find (\<lambda>p. idEq (Num (executionId p)) ?ident) plans)
                 (find (\<lambda>c. idEq (Num (commitExecutionId c)) ?ident) (commitsInfo ice))
                 stages g = Inr (sqls store' ! (k + i), g + 2) \<and>
               uniqueId (sqls store' ! (k + i)) = g \<and>
               (uniqueId cur < gen \<longrightarrow> uniqueId (sqls store' ! (k + i)) \<noteq> uniqueId cur)"
    by (intro exI [of _ g]) simp
qed

lemma reapply_store:
  "calculateSqlStore exDeps (Some \<lparr>sqls = pre @ [materialized Completed 10 u]\<rparr>)
       [snapshot Completed 10 scanOnly] [] noIceberg () g
     = Inr (\<lparr>sqls = filter (\<lambda>s. idLess (parseInt exDeps (sqlId s)) (Num 7)) pre
                    @ [materialized Completed 10 g]\<rparr>, g + 2)"
  if "\<forall>s\<in>set pre. \<not> idEq (parseInt exDeps (sqlId s)) (Num 7)"
proof -
  have "find (\<lambda>s. idEq (parseInt exDeps (sqlId s)) (Num 7)) (pre @ [materialized Completed 10 u])
          = Some (materialized Completed 10 u)"
    using that by (induction pre) (simp_all add: materialized_fields parse7)
  then show ?thesis
    by (simp add: calculateSqlStore_def storeEntry_def mathMin_def noIceberg_def Let_def
        snapshot_fields materialized_fields parse7 materialize)
qed

text \<open>
  Claim C2 as stated fails: an execution is materialized as Completed with the
  identity 0; applying the very same snapshot again replaces it by an execution with
  the identity 2.
\<close>

theorem calculateSqlStore_terminal_recomputed:
  "calculateSqlStore exDeps None [snapshot Completed 10 scanOnly] [] noIceberg () 0
     = Inr (\<lparr>sqls = [materialized Completed 10 0]\<rparr>, 2) \<and>
   status (materialized Completed 10 0) = Completed \<and>
   calculateSqlStore exDeps (Some \<lparr>sqls = [materialized Completed 10 0]\<rparr>)
       [snapshot Completed 10 scanOnly] [] noIceberg () 2
     = Inr (\<lparr>sqls = [materialized Completed 10 2]\<rparr>, 4) \<and>
   uniqueId (materialized Completed 10 0) = 0 \<and>
   uniqueId (materialized Completed 10 2) = 2 \<and>
   materialized Completed 10 2 \<noteq> materialized Completed 10 0"
proof -
  have "calculateSqlStore exDeps (Some \<lparr>sqls = [] @ [materialized Completed 10 0]\<rparr>)
       [snapshot Completed 10 scanOnly] [] noIceberg () 2
     = Inr (\<lparr>sqls = filter (\<lambda>s. idLess (parseInt exDeps (sqlId s)) (Num 7)) []
                    @ [materialized Completed 10 2]\<rparr>, 2 + 2)"
    by (rule reapply_store) simp
  moreover have "materialized Completed 10 2 \<noteq> materialized Completed 10 0"
    by (simp add: materialized_def)
  ultimately show ?thesis by (simp add: first_store materialized_fields)
qed

theorem calculateSqlStore_keeps_older_recomputes_batch_witness:
  "calculateSqlStore exDeps (Some \<lparr>sqls = [older, materialized Completed 10 2]\<rparr>)
       [snapshot Completed 10 scanOnly] [] noIceberg () 4
     = Inr (\<lparr>sqls = [older, materialized Completed 10 4]\<rparr>, 6) \<and>
   take 1 [older, materialized Completed 10 4] = [older] \<and>
   status (snapshot Completed 10 scanOnly) = Completed \<and>
   uniqueId (materialized Completed 10 2) < 4 \<and>
   uniqueId (materialized Completed 10 4) \<noteq> uniqueId (materialized Completed 10 2)"
proof -
  let ?store = "\<lparr>sqls = [older, materialized Completed 10 2]\<rparr>"
  let ?new = "snapshot Completed 10 scanOnly"
  have o: "sqlId older = ''3''" by (simp add: older_def)
  have "calculateSqlStore exDeps (Some \<lparr>sqls = [older] @ [materialized Completed 10 2]\<rparr>)
       [?new] [] noIceberg () 4
     = Inr (\<lparr>sqls = filter (\<lambda>s. idLess (parseInt exDeps (sqlId s)) (Num 7)) [older]
                    @ [materialized Completed 10 4]\<rparr>, 4 + 2)"
    by (rule reapply_store) (simp add: o parse7)
  then have ret: "calculateSqlStore exDeps (Some ?store) [?new] [] noIceberg () 4
     = Inr (\<lparr>sqls = [older, materialized Completed 10 4]\<rparr>, 6)"
    by (simp add: o parse7)
  have kept: "filter (\<lambda>s. idLess (parseInt exDeps (sqlId s))
                 (mathMin (map (\<lambda>s. parseInt exDeps (sqlId s)) [?new]))) (sqls ?store) = [older]"
    by (simp add: snapshot_fields materialized_fields parse7 mathMin_def o)
  have new: "find (\<lambda>s. idEq (parseInt exDeps (sqlId s)) (parseInt exDeps (sqlId ([?new] ! 0))))
               [?new] = Some ?new"
    by (simp add: snapshot_fields parse7)
  have cur: "find (\<lambda>s. idEq (parseInt exDeps (sqlId s)) (parseInt exDeps (sqlId ([?new] ! 0))))
               (sqls ?store) = Some (materialized Completed 10 2)"
    by (simp add: snapshot_fields materialized_fields parse7 o)
  have st: "status ?new = Completed" by (simp add: snapshot_fields)
  have lt: "uniqueId (materialized Completed 10 2) < 4" by (simp add: materialized_fields)
  note inst = calculateSqlStore_keeps_older_recomputes_batch [OF ret refl]
  from inst have tk: "take (length (filter (\<lambda>s. idLess (parseInt exDeps (sqlId s))
                 (mathMin (map (\<lambda>s. parseInt exDeps (sqlId s)) [?new]))) (sqls ?store)))
            (sqls \<lparr>sqls = [older, materialized Completed 10 4]\<rparr>) = [older]"
    unfolding kept by blast
  then have tk1: "take 1 [older, materialized Completed 10 4] = [older]"
    unfolding kept by simp
  have i: "(0::nat) < length [?new]" by simp
  from inst [THEN conjunct2, THEN conjunct2, rule_format, of 0 ?new "materialized Completed 10 2"]
    i new cur st lt
  have "uniqueId (sqls \<lparr>sqls = [older, materialized Completed 10 4]\<rparr> !
           (length (filter (\<lambda>s. idLess (parseInt exDeps (sqlId s))
                 (mathMin (map (\<lambda>s. parseInt exDeps (sqlId s)) [?new]))) (sqls ?store)) + 0))
          \<noteq> uniqueId (materialized Completed 10 2)"
    by blast
  then have "uniqueId (materialized Completed 10 4) \<noteq> uniqueId (materialized Completed 10 2)"
    unfolding kept by simp
  with ret tk1 st lt show ?thesis by blast
qed

end
